theory Spec2Isabelle
  imports Complex_Main "HOL-Library.Word"
begin

section \<open>JavaScript values used by the bot\<close>

text \<open>
  A JavaScript string is a sequence of UTF-16 code units: \<open>length\<close> counts code units and
  \<open>slice\<close> cuts between them. The Russian texts and the emoji of the source are therefore
  written as lists of code units; ASCII texts are written with \<open>u16\<close>.
\<close>

type_synonym jsstring = "16 word list"

definition u16 :: "string \<Rightarrow> jsstring" where
  "u16 cs = map (\<lambda>c. of_nat (of_char c)) cs"

text \<open>
  JavaScript numbers are modelled as exact rationals. The program stores decimal literals
  and the value of a digit string in them, compares them with \<open>===\<close>, and computes one
  product and one rounding; the rounding of doubles above \<open>2^53\<close> is not modelled.
\<close>

type_synonym number = rat

text \<open>\<open>String.prototype.trim\<close> removes white space and line terminators at both ends.\<close>

definition isWhiteSpace :: "16 word \<Rightarrow> bool" where
  "isWhiteSpace c \<longleftrightarrow>
     c \<in> {0x9, 0xA, 0xB, 0xC, 0xD, 0x20, 0xA0, 0x1680, 0x2028, 0x2029, 0x202F, 0x205F,
          0x3000, 0xFEFF} \<or> (0x2000 \<le> c \<and> c \<le> 0x200A)"

definition trim :: "jsstring \<Rightarrow> jsstring" where
  "trim s = rev (dropWhile isWhiteSpace (rev (dropWhile isWhiteSpace s)))"

definition startsWith :: "jsstring \<Rightarrow> jsstring \<Rightarrow> bool" where
  "startsWith s p \<longleftrightarrow> take (length p) s = p"

text \<open>\<open>a.join(sep)\<close> on an array of strings.\<close>

fun join :: "jsstring \<Rightarrow> jsstring list \<Rightarrow> jsstring" where
  "join sep [] = []"
| "join sep [x] = x"
| "join sep (x # y # ys) = x @ sep @ join sep (y # ys)"

text \<open>\<open>Math.round\<close>: the nearest integer, a tie going up.\<close>

definition Math_round :: "number \<Rightarrow> number" where
  "Math_round x = of_int \<lfloor>x + 1 / 2\<rfloor>"

text \<open>
  The conversion of a number to a string in a template literal, for the numbers this program
  prints: non-negative integers (in plain decimal, as JavaScript does below \<open>10^21\<close>) and
  values with one decimal digit such as \<open>0.7\<close>.
\<close>

fun digits :: "nat \<Rightarrow> jsstring" where
  "digits n = (if n < 10 then [0x30 + of_nat n] else digits (n div 10) @ [0x30 + of_nat (n mod 10)])"

declare digits.simps [simp del]

definition numberToString :: "number \<Rightarrow> jsstring" where
  "numberToString x =
     (let n = nat \<lfloor>x\<rfloor>; f = x - of_nat n
      in if f = 0 then digits n else digits n @ u16 ''.'' @ digits (nat \<lfloor>f * 10\<rfloor>))"

text \<open>
  \<open>Number(d)\<close> for a string \<open>d\<close> of decimal digits: the number the digits denote,
  which is what JavaScript gives up to \<open>2^53\<close>; above, JavaScript rounds to a double.
\<close>

definition isDigit :: "16 word \<Rightarrow> bool" where
  "isDigit c \<longleftrightarrow> 0x30 \<le> c \<and> c \<le> 0x39"

definition Number :: "jsstring \<Rightarrow> number" where
  "Number d = of_nat (foldl (\<lambda>acc c. 10 * acc + unat (c - 0x30)) 0 d)"

text \<open>
  \<open>/len_(\d+)/.exec(value)\<close>: the leftmost place where \<open>len_\<close> is followed by a digit, and
  there the longest run of digits (capture group 1). The pattern is not anchored.
\<close>

fun match_len :: "jsstring \<Rightarrow> jsstring option" where
  "match_len [] = None"
| "match_len (c # cs) =
     (let ds = takeWhile isDigit (drop 4 (c # cs))
      in if take 4 (c # cs) = u16 ''len_'' \<and> ds \<noteq> [] then Some ds else match_len cs)"

section \<open>The texts of the source\<close>

definition MODEL :: jsstring where
  \<comment> \<open>bot.mjs line 18\<close>
  "MODEL = u16 ''llama-3.3-70b-versatile''"

definition STOP_MARKER :: jsstring where
  \<comment> \<open>bot.mjs line 20\<close>
  "STOP_MARKER = u16 ''<END>''"

definition DEFAULT_SYSTEM :: jsstring where
  \<comment> \<open>bot.mjs line 19: the fixed system instruction (Russian: You are a helpful assistant. Answer to the point.)\<close>
  "DEFAULT_SYSTEM =
     [0x422, 0x44B, 0x20, 0x43F, 0x43E, 0x43B, 0x435, 0x437, 0x43D, 0x44B, 0x439, 0x20,
      0x430, 0x441, 0x441, 0x438, 0x441, 0x442, 0x435, 0x43D, 0x442, 0x2E, 0x20, 0x41E,
      0x442, 0x432, 0x435, 0x447, 0x430, 0x439, 0x20, 0x43F, 0x43E, 0x20, 0x434, 0x435,
      0x43B, 0x443, 0x2E]"

definition txt_truncated :: jsstring where
  \<comment> \<open>bot.mjs line 67: two newlines, an ellipsis U+2026 and (truncated) in Russian\<close>
  "txt_truncated =
     [0xA, 0xA, 0x2026, 0x28, 0x43E, 0x431, 0x440, 0x435, 0x437, 0x430, 0x43D, 0x43E, 0x29]"

definition txt_list :: jsstring where
  \<comment> \<open>bot.mjs lines 71 and 97: Russian for List\<close>
  "txt_list =
     [0x421, 0x43F, 0x438, 0x441, 0x43E, 0x43A]"

definition GREEN :: jsstring where
  \<comment> \<open>bot.mjs lines 90-118: the green square U+1F7E9 (a surrogate pair) and a space, which marks the selected button\<close>
  "GREEN =
     [0xD83D, 0xDFE9, 0x20]"

definition dash_open :: jsstring where
  \<comment> \<open>bot.mjs line 83: an em dash and a space\<close>
  "dash_open =
     [0x2014, 0x20]"

definition dash_close :: jsstring where
  \<comment> \<open>bot.mjs line 83: a space and an em dash\<close>
  "dash_close =
     [0x20, 0x2014]"

definition lbl_len :: jsstring where
  \<comment> \<open>bot.mjs line 122: label of the max_tokens row\<close>
  "lbl_len =
     [0x41A, 0x43E, 0x43B, 0x438, 0x447, 0x435, 0x441, 0x442, 0x432, 0x43E, 0x20, 0x442,
      0x43E, 0x43A, 0x435, 0x43D, 0x43E, 0x432, 0x20, 0x43D, 0x430, 0x20, 0x43E, 0x442,
      0x432, 0x435, 0x442, 0x20, 0x28, 0x6D, 0x61, 0x78, 0x5F, 0x74, 0x6F, 0x6B, 0x65,
      0x6E, 0x73, 0x29]"

definition lbl_format :: jsstring where
  \<comment> \<open>bot.mjs line 125: label of the format row\<close>
  "lbl_format =
     [0x424, 0x43E, 0x440, 0x43C, 0x430, 0x442, 0x20, 0x432, 0x44B, 0x432, 0x43E, 0x434,
      0x430]"

definition lbl_temp :: jsstring where
  \<comment> \<open>bot.mjs line 128: label of the temperature row\<close>
  "lbl_temp =
     [0x421, 0x43B, 0x443, 0x447, 0x430, 0x439, 0x43D, 0x43E, 0x441, 0x442, 0x44C, 0x20,
      0x28, 0x74, 0x65, 0x6D, 0x70, 0x65, 0x72, 0x61, 0x74, 0x75, 0x72, 0x65, 0x29]"

definition lbl_freq :: jsstring where
  \<comment> \<open>bot.mjs line 131: label of the frequency_penalty row\<close>
  "lbl_freq =
     [0x428, 0x442, 0x440, 0x430, 0x444, 0x20, 0x43F, 0x43E, 0x432, 0x442, 0x43E, 0x440,
      0x43E, 0x432, 0x20, 0x441, 0x43B, 0x43E, 0x432, 0x20, 0x28, 0x66, 0x72, 0x65, 0x71,
      0x75, 0x65, 0x6E, 0x63, 0x79, 0x5F, 0x70, 0x65, 0x6E, 0x61, 0x6C, 0x74, 0x79, 0x29]"

definition lbl_pres :: jsstring where
  \<comment> \<open>bot.mjs line 134: label of the presence_penalty row\<close>
  "lbl_pres =
     [0x428, 0x442, 0x440, 0x430, 0x444, 0x20, 0x43F, 0x43E, 0x432, 0x442, 0x43E, 0x440,
      0x43E, 0x432, 0x20, 0x442, 0x435, 0x43C, 0x20, 0x28, 0x70, 0x72, 0x65, 0x73, 0x65,
      0x6E, 0x63, 0x65, 0x5F, 0x70, 0x65, 0x6E, 0x61, 0x6C, 0x74, 0x79, 0x29]"

definition lbl_stop :: jsstring where
  \<comment> \<open>bot.mjs line 137: label of the stop row\<close>
  "lbl_stop =
     [0x423, 0x441, 0x43B, 0x43E, 0x432, 0x438, 0x435, 0x20, 0x437, 0x430, 0x432, 0x435,
      0x440, 0x448, 0x435, 0x43D, 0x438, 0x44F, 0x20, 0x28, 0x73, 0x74, 0x6F, 0x70, 0x29]"

definition btn_back :: jsstring where
  \<comment> \<open>bot.mjs line 140: button Back\<close>
  "btn_back =
     [0x2B05, 0xFE0F, 0x20, 0x41D, 0x430, 0x437, 0x430, 0x434]"

definition btn_new_question :: jsstring where
  \<comment> \<open>bot.mjs line 147: button New question\<close>
  "btn_new_question =
     [0xD83C, 0xDD95, 0x20, 0x41D, 0x43E, 0x432, 0x44B, 0x439, 0x20, 0x432, 0x43E, 0x43F,
      0x440, 0x43E, 0x441]"

definition btn_open_settings :: jsstring where
  \<comment> \<open>bot.mjs line 148: button Change settings\<close>
  "btn_open_settings =
     [0x2699, 0xFE0F, 0x20, 0x418, 0x437, 0x43C, 0x435, 0x43D, 0x438, 0x442, 0x44C, 0x20,
      0x43D, 0x430, 0x441, 0x442, 0x440, 0x43E, 0x439, 0x43A, 0x438]"

definition btn_start :: jsstring where
  \<comment> \<open>bot.mjs line 155: button Start\<close>
  "btn_start =
     [0x25B6, 0xFE0F, 0x20, 0x53, 0x74, 0x61, 0x72, 0x74]"

definition instr_json :: jsstring where
  \<comment> \<open>bot.mjs line 165: format directive, strict JSON with a fixed schema\<close>
  "instr_json =
     [0x424, 0x43E, 0x440, 0x43C, 0x430, 0x442, 0x20, 0x43E, 0x442, 0x432, 0x435, 0x442,
      0x430, 0x3A, 0x20, 0x441, 0x442, 0x440, 0x43E, 0x433, 0x43E, 0x20, 0x4A, 0x53, 0x4F,
      0x4E, 0x20, 0x431, 0x435, 0x437, 0x20, 0x6D, 0x61, 0x72, 0x6B, 0x64, 0x6F, 0x77,
      0x6E, 0x2E, 0x20, 0x41F, 0x43E, 0x43B, 0x44F, 0x3A, 0x20, 0x7B, 0x22, 0x61, 0x6E,
      0x73, 0x77, 0x65, 0x72, 0x22, 0x3A, 0x20, 0x73, 0x74, 0x72, 0x69, 0x6E, 0x67, 0x2C,
      0x20, 0x22, 0x62, 0x75, 0x6C, 0x6C, 0x65, 0x74, 0x73, 0x22, 0x3A, 0x20, 0x73, 0x74,
      0x72, 0x69, 0x6E, 0x67, 0x5B, 0x5D, 0x7D, 0x2E]"

definition instr_bullets :: jsstring where
  \<comment> \<open>bot.mjs line 166: format directive, a list of 3 to 6 short items\<close>
  "instr_bullets =
     [0x424, 0x43E, 0x440, 0x43C, 0x430, 0x442, 0x20, 0x43E, 0x442, 0x432, 0x435, 0x442,
      0x430, 0x3A, 0x20, 0x441, 0x43F, 0x438, 0x441, 0x43E, 0x43A, 0x20, 0x438, 0x437,
      0x20, 0x33, 0x2013, 0x36, 0x20, 0x43F, 0x443, 0x43D, 0x43A, 0x442, 0x43E, 0x432,
      0x2E, 0x20, 0x41A, 0x430, 0x436, 0x434, 0x44B, 0x439, 0x20, 0x43F, 0x443, 0x43D,
      0x43A, 0x442, 0x20, 0x43A, 0x43E, 0x440, 0x43E, 0x442, 0x43A, 0x438, 0x439, 0x2E]"

definition instr_len_pre :: jsstring where
  \<comment> \<open>bot.mjs line 168: length directive, the part before the number\<close>
  "instr_len_pre =
     [0x41E, 0x433, 0x440, 0x430, 0x43D, 0x438, 0x447, 0x435, 0x43D, 0x438, 0x435, 0x20,
      0x434, 0x43B, 0x438, 0x43D, 0x44B, 0x3A, 0x20, 0x443, 0x43B, 0x43E, 0x436, 0x438,
      0x441, 0x44C, 0x20, 0x43F, 0x440, 0x438, 0x43C, 0x435, 0x440, 0x43D, 0x43E, 0x20,
      0x432, 0x20]"

definition instr_len_post :: jsstring where
  \<comment> \<open>bot.mjs line 171: length directive, the part after the number (words at most)\<close>
  "instr_len_post =
     [0x20, 0x441, 0x43B, 0x43E, 0x432, 0x20, 0x43C, 0x430, 0x43A, 0x441, 0x438, 0x43C,
      0x443, 0x43C, 0x2E]"

definition instr_stop_pre :: jsstring where
  \<comment> \<open>bot.mjs line 174: termination directive, the part before the stop marker\<close>
  "instr_stop_pre =
     [0x423, 0x441, 0x43B, 0x43E, 0x432, 0x438, 0x435, 0x20, 0x437, 0x430, 0x432, 0x435,
      0x440, 0x448, 0x435, 0x43D, 0x438, 0x44F, 0x3A, 0x20, 0x432, 0x20, 0x43A, 0x43E,
      0x43D, 0x446, 0x435, 0x20, 0x432, 0x44B, 0x432, 0x435, 0x434, 0x438, 0x20, 0x43E,
      0x442, 0x434, 0x435, 0x43B, 0x44C, 0x43D, 0x43E, 0x439, 0x20, 0x441, 0x442, 0x440,
      0x43E, 0x43A, 0x43E, 0x439, 0x20]"

definition instr_no_stop :: jsstring where
  \<comment> \<open>bot.mjs line 175: termination directive without a stop marker\<close>
  "instr_no_stop =
     [0x423, 0x441, 0x43B, 0x43E, 0x432, 0x438, 0x435, 0x20, 0x437, 0x430, 0x432, 0x435,
      0x440, 0x448, 0x435, 0x43D, 0x438, 0x44F, 0x3A, 0x20, 0x437, 0x430, 0x43A, 0x43E,
      0x43D, 0x447, 0x438, 0x20, 0x441, 0x440, 0x430, 0x437, 0x443, 0x20, 0x43F, 0x43E,
      0x441, 0x43B, 0x435, 0x20, 0x432, 0x44B, 0x43F, 0x43E, 0x43B, 0x43D, 0x435, 0x43D,
      0x438, 0x44F, 0x20, 0x442, 0x440, 0x435, 0x431, 0x43E, 0x432, 0x430, 0x43D, 0x438,
      0x439, 0x2E]"

definition txt_requirements :: jsstring where
  \<comment> \<open>bot.mjs line 180: header of the instruction block\<close>
  "txt_requirements =
     [0x422, 0x440, 0x435, 0x431, 0x43E, 0x432, 0x430, 0x43D, 0x438, 0x44F, 0x20, 0x43A,
      0x20, 0x43E, 0x442, 0x432, 0x435, 0x442, 0x443, 0x3A]"

definition txt_empty_answer :: jsstring where
  \<comment> \<open>bot.mjs line 200 and part_000 line 59: placeholder for a response without content\<close>
  "txt_empty_answer =
     [0x28, 0x43F, 0x443, 0x441, 0x442, 0x43E, 0x439, 0x20, 0x43E, 0x442, 0x432, 0x435,
      0x442, 0x29]"

definition txt_start_screen :: jsstring where
  \<comment> \<open>bot.mjs line 217: text of the Start screen\<close>
  "txt_start_screen =
     [0x41D, 0x430, 0x436, 0x43C, 0x438, 0x20, 0x53, 0x74, 0x61, 0x72, 0x74, 0x2C, 0x20,
      0x447, 0x442, 0x43E, 0x431, 0x44B, 0x20, 0x43D, 0x430, 0x447, 0x430, 0x442, 0x44C,
      0x20, 0x438, 0x20, 0x443, 0x432, 0x438, 0x434, 0x435, 0x442, 0x44C, 0x20, 0x43D,
      0x430, 0x441, 0x442, 0x440, 0x43E, 0x439, 0x43A, 0x438, 0x2E]"

definition txt_controls_head :: jsstring where
  \<comment> \<open>bot.mjs line 228: first line of the Settings screen\<close>
  "txt_controls_head =
     [0x2699, 0xFE0F, 0x20, 0x41D, 0x430, 0x441, 0x442, 0x440, 0x43E, 0x439, 0x43A, 0x438,
      0xA]"

definition txt_controls_tail :: jsstring where
  \<comment> \<open>bot.mjs line 230: last line of the Settings screen\<close>
  "txt_controls_tail =
     [0xA, 0xA, 0x41D, 0x430, 0x436, 0x438, 0x43C, 0x430, 0x439, 0x20, 0x43A, 0x43D, 0x43E,
      0x43F, 0x43A, 0x438, 0x20, 0x43D, 0x438, 0x436, 0x435, 0x2C, 0x20, 0x447, 0x442,
      0x43E, 0x431, 0x44B, 0x20, 0x43C, 0x435, 0x43D, 0x44F, 0x442, 0x44C, 0x20, 0x43F,
      0x430, 0x440, 0x430, 0x43C, 0x435, 0x442, 0x440, 0x44B, 0x3A]"

definition txt_prompt :: jsstring where
  \<comment> \<open>bot.mjs line 264: text of the Prompt screen\<close>
  "txt_prompt =
     [0x41C, 0x43E, 0x436, 0x435, 0x448, 0x44C, 0x20, 0x437, 0x430, 0x434, 0x430, 0x442,
      0x44C, 0x20, 0x432, 0x43E, 0x43F, 0x440, 0x43E, 0x441, 0x2E, 0x20, 0x42F, 0x20,
      0x43F, 0x440, 0x438, 0x448, 0x43B, 0x44E, 0x20, 0x32, 0x20, 0x43E, 0x442, 0x432,
      0x435, 0x442, 0x430, 0x3A, 0x20, 0x28, 0x31, 0x29, 0x20, 0x441, 0x20, 0x43E, 0x433,
      0x440, 0x430, 0x43D, 0x438, 0x447, 0x435, 0x43D, 0x438, 0x44F, 0x43C, 0x438, 0x20,
      0x438, 0x20, 0x28, 0x32, 0x29, 0x20, 0x431, 0x435, 0x437, 0x20, 0x43E, 0x433, 0x440,
      0x430, 0x43D, 0x438, 0x447, 0x435, 0x43D, 0x438, 0x439, 0x2E]"

definition txt_welcome :: jsstring where
  \<comment> \<open>bot.mjs line 275: greeting of the start command\<close>
  "txt_welcome =
     [0x41F, 0x440, 0x438, 0x432, 0x435, 0x442, 0x21, 0x20, 0x42D, 0x442, 0x43E, 0x20,
      0x431, 0x43E, 0x442, 0x20, 0x434, 0x43B, 0x44F, 0x20, 0x44D, 0x43A, 0x441, 0x43F,
      0x435, 0x440, 0x438, 0x43C, 0x435, 0x43D, 0x442, 0x43E, 0x432, 0x20, 0x441, 0x20,
      0x43A, 0x43E, 0x43D, 0x442, 0x440, 0x43E, 0x43B, 0x435, 0x43C, 0x20, 0x43E, 0x442,
      0x432, 0x435, 0x442, 0x430, 0x2E, 0xA, 0x41A, 0x43E, 0x43C, 0x430, 0x43D, 0x434,
      0x44B, 0x3A, 0x20, 0x2F, 0x72, 0x65, 0x73, 0x65, 0x74, 0x2C, 0x20, 0x2F, 0x63, 0x6F,
      0x6E, 0x74, 0x72, 0x6F, 0x6C, 0x73]"

definition txt_reset_done :: jsstring where
  \<comment> \<open>bot.mjs line 287: confirmation of the reset command\<close>
  "txt_reset_done =
     [0x41E, 0x43A, 0x2C, 0x20, 0x43A, 0x43E, 0x43D, 0x442, 0x435, 0x43A, 0x441, 0x442,
      0x20, 0x438, 0x20, 0x43D, 0x430, 0x441, 0x442, 0x440, 0x43E, 0x439, 0x43A, 0x438,
      0x20, 0x441, 0x431, 0x440, 0x43E, 0x448, 0x435, 0x43D, 0x44B, 0x2E]"

definition txt_new_session :: jsstring where
  \<comment> \<open>bot.mjs line 303: confirmation of the do_start button\<close>
  "txt_new_session =
     [0x41D, 0x430, 0x447, 0x430, 0x43B, 0x438, 0x20, 0x43D, 0x43E, 0x432, 0x443, 0x44E,
      0x20, 0x441, 0x435, 0x441, 0x441, 0x438, 0x44E, 0x2E]"

definition txt_ask_question :: jsstring where
  \<comment> \<open>bot.mjs line 310: answer to the new_question button\<close>
  "txt_ask_question =
     [0x41E, 0x43A, 0x21, 0x20, 0x41D, 0x430, 0x43F, 0x438, 0x448, 0x438, 0x20, 0x43D,
      0x43E, 0x432, 0x44B, 0x439, 0x20, 0x432, 0x43E, 0x43F, 0x440, 0x43E, 0x441, 0x20,
      0x442, 0x435, 0x43A, 0x441, 0x442, 0x43E, 0x43C, 0x20, 0xD83D, 0xDE42]"

definition txt_constrained_label :: jsstring where
  \<comment> \<open>bot.mjs line 467: label of the constrained reply (U+2705, With constraints, newline)\<close>
  "txt_constrained_label =
     [0x2705, 0x20, 0x421, 0x20, 0x43E, 0x433, 0x440, 0x430, 0x43D, 0x438, 0x447, 0x435,
      0x43D, 0x438, 0x44F, 0x43C, 0x438, 0xA]"

definition txt_unrestricted_label :: jsstring where
  \<comment> \<open>bot.mjs line 482: label of the unrestricted reply (U+1F7E6, Without constraints, newline)\<close>
  "txt_unrestricted_label =
     [0xD83D, 0xDFE6, 0x20, 0x411, 0x435, 0x437, 0x20, 0x43E, 0x433, 0x440, 0x430, 0x43D,
      0x438, 0x447, 0x435, 0x43D, 0x438, 0x439, 0xA]"

definition txt_apology :: jsstring where
  \<comment> \<open>bot.mjs line 494 and part_000 line 67: the generic apology (Oops, error while querying the model. See the console log.)\<close>
  "txt_apology =
     [0x423, 0x43F, 0x441, 0x2C, 0x20, 0x43E, 0x448, 0x438, 0x431, 0x43A, 0x430, 0x20,
      0x43F, 0x440, 0x438, 0x20, 0x437, 0x430, 0x43F, 0x440, 0x43E, 0x441, 0x435, 0x20,
      0x43A, 0x20, 0x43C, 0x43E, 0x434, 0x435, 0x43B, 0x438, 0x2E, 0x20, 0x421, 0x43C,
      0x43E, 0x442, 0x440, 0x438, 0x20, 0x43B, 0x43E, 0x433, 0x20, 0x432, 0x20, 0x43A,
      0x43E, 0x43D, 0x441, 0x43E, 0x43B, 0x438, 0x2E]"

definition DEFAULT_SYSTEM_000 :: jsstring where
  \<comment> \<open>part_000 line 24: the system instruction of the single-answer bot\<close>
  "DEFAULT_SYSTEM_000 =
     [0x422, 0x44B, 0x20, 0x43F, 0x43E, 0x43B, 0x435, 0x437, 0x43D, 0x44B, 0x439, 0x20,
      0x430, 0x441, 0x441, 0x438, 0x441, 0x442, 0x435, 0x43D, 0x442, 0x2E, 0x20, 0x41E,
      0x442, 0x432, 0x435, 0x447, 0x430, 0x439, 0x20, 0x43A, 0x440, 0x430, 0x442, 0x43A,
      0x43E, 0x20, 0x438, 0x20, 0x43F, 0x43E, 0x20, 0x434, 0x435, 0x43B, 0x443, 0x2E]"

section \<open>State (in memory)\<close>

datatype role = System | User | Assistant

record message =
  role :: role
  content :: jsstring

text \<open>The source's \<open>format\<close> is one of the strings \<open>"bullets"\<close> and \<open>"json"\<close>.\<close>

datatype format_mode = Bullets | Json

record settings =
  max_tokens :: number
  format :: format_mode
  temperature :: number
  frequency_penalty :: number
  presence_penalty :: number
  use_stop :: bool

type_synonym chat_id = int
type_synonym message_id = int

text \<open>The three maps of bot.mjs, lines 25 to 27.\<close>

record store =
  dialogs :: "chat_id \<rightharpoonup> message list"
  settingsByChat :: "chat_id \<rightharpoonup> settings"
  settingsMsgIdByChat :: "chat_id \<rightharpoonup> message_id"

definition empty_store :: store where
  "empty_store = \<lparr>dialogs = Map.empty, settingsByChat = Map.empty, settingsMsgIdByChat = Map.empty\<rparr>"

definition newDefaultSettings :: settings where
  "newDefaultSettings =
     \<lparr>max_tokens = 128, format = Bullets, temperature = 0.7, frequency_penalty = 0,
      presence_penalty = 0, use_stop = True\<rparr>"

definition ensureSession :: "chat_id \<Rightarrow> store \<Rightarrow> store" where
  "ensureSession chatId st =
     (let st1 = (if dialogs st chatId = None
                 then st\<lparr>dialogs := (dialogs st)(chatId \<mapsto> [\<lparr>role = System, content = DEFAULT_SYSTEM\<rparr>])\<rparr>
                 else st)
      in if settingsByChat st1 chatId = None
         then st1\<lparr>settingsByChat := (settingsByChat st1)(chatId \<mapsto> newDefaultSettings)\<rparr>
         else st1)"

definition resetSession :: "chat_id \<Rightarrow> store \<Rightarrow> store" where
  "resetSession chatId st =
     ensureSession chatId
       (st\<lparr>dialogs := (dialogs st)(chatId := None),
           settingsByChat := (settingsByChat st)(chatId := None),
           settingsMsgIdByChat := (settingsMsgIdByChat st)(chatId := None)\<rparr>)"

text \<open>
  \<open>getMessages\<close> and \<open>getSettings\<close> call \<open>ensureSession\<close> first, so the entry they read
  exists; they return what they read and the store as \<open>ensureSession\<close> left it.
\<close>

definition getMessages :: "chat_id \<Rightarrow> store \<Rightarrow> message list \<times> store" where
  "getMessages chatId st = (let st1 = ensureSession chatId st in (the (dialogs st1 chatId), st1))"

definition getSettings :: "chat_id \<Rightarrow> store \<Rightarrow> settings \<times> store" where
  "getSettings chatId st = (let st1 = ensureSession chatId st in (the (settingsByChat st1 chatId), st1))"

definition safeTelegramText :: "jsstring \<Rightarrow> jsstring" where
  "safeTelegramText text = (if length text > 3500 then take 3500 text @ txt_truncated else text)"

definition prettySettings :: "settings \<Rightarrow> jsstring" where
  "prettySettings s =
     (let fmt = (if format s = Json then u16 ''JSON'' else txt_list);
          stop = (if use_stop s then u16 ''ON ('' @ STOP_MARKER @ u16 '')'' else u16 ''OFF'')
      in u16 ''max_tokens: '' @ numberToString (max_tokens s) @ u16 '' | format: '' @ fmt
         @ u16 '' | temp: '' @ numberToString (temperature s)
         @ u16 '' | freq: '' @ numberToString (frequency_penalty s)
         @ u16 '' | pres: '' @ numberToString (presence_penalty s)
         @ u16 '' | stop: '' @ stop)"

section \<open>Keyboards\<close>

text \<open>
  \<open>Markup.button.callback(text, data)\<close> is a pair of a label and a callback identifier;
  \<open>Markup.inlineKeyboard\<close> takes the rows of buttons.
\<close>

type_synonym button = "jsstring \<times> jsstring"
type_synonym keyboard = "button list list"

definition labelRow :: "jsstring \<Rightarrow> button list" where
  "labelRow text = [(dash_open @ text @ dash_close, u16 ''noop'')]"

definition controlsKeyboard :: "chat_id \<Rightarrow> store \<Rightarrow> keyboard \<times> store" where
  "controlsKeyboard chatId st =
     (let (s, st1) = getSettings chatId st;
          lenRow =
            [(if max_tokens s = 64 then GREEN @ u16 ''64'' else u16 ''64'', u16 ''len_64''),
             (if max_tokens s = 128 then GREEN @ u16 ''128'' else u16 ''128'', u16 ''len_128''),
             (if max_tokens s = 256 then GREEN @ u16 ''256'' else u16 ''256'', u16 ''len_256''),
             (if max_tokens s = 512 then GREEN @ u16 ''512'' else u16 ''512'', u16 ''len_512'')];
          formatRow =
            [(if format s = Bullets then GREEN @ txt_list else txt_list, u16 ''fmt_bullets''),
             (if format s = Json then GREEN @ u16 ''JSON'' else u16 ''JSON'', u16 ''fmt_json'')];
          tempRow =
            [(if temperature s = 0.2 then GREEN @ u16 ''0.2'' else u16 ''0.2'', u16 ''temp_0.2''),
             (if temperature s = 0.9 then GREEN @ u16 ''0.9'' else u16 ''0.9'', u16 ''temp_0.9'')];
          freqRow =
            [(if frequency_penalty s = 0 then GREEN @ u16 ''0'' else u16 ''0'', u16 ''freq_0''),
             (if frequency_penalty s = 0.6 then GREEN @ u16 ''0.6'' else u16 ''0.6'', u16 ''freq_0.6'')];
          presRow =
            [(if presence_penalty s = 0 then GREEN @ u16 ''0'' else u16 ''0'', u16 ''pres_0''),
             (if presence_penalty s = 0.6 then GREEN @ u16 ''0.6'' else u16 ''0.6'', u16 ''pres_0.6'')];
          stopRow =
            [(if use_stop s then GREEN @ u16 ''ON'' else u16 ''ON'', u16 ''stop_on''),
             (if \<not> use_stop s then GREEN @ u16 ''OFF'' else u16 ''OFF'', u16 ''stop_off'')]
      in ([labelRow lbl_len, lenRow,
           labelRow lbl_format, formatRow,
           labelRow lbl_temp, tempRow,
           labelRow lbl_freq, freqRow,
           labelRow lbl_pres, presRow,
           labelRow lbl_stop, stopRow,
           [(btn_back, u16 ''back_to_prompt'')]], st1))"

definition afterAnswerKeyboard :: keyboard where
  "afterAnswerKeyboard =
     [[(btn_new_question, u16 ''new_question''), (btn_open_settings, u16 ''open_settings'')]]"

definition startKeyboard :: keyboard where
  "startKeyboard = [[(btn_start, u16 ''do_start'')]]"

section \<open>Text builders\<close>

definition buildConstrainedUserPrompt :: "jsstring \<Rightarrow> settings \<Rightarrow> jsstring" where
  "buildConstrainedUserPrompt userText s =
     (let formatInstruction = (if format s = Json then instr_json else instr_bullets);
          lengthInstruction =
            instr_len_pre @ numberToString (min 120 (Math_round (max_tokens s * 0.75)))
            @ instr_len_post;
          stopInstruction =
            (if use_stop s then instr_stop_pre @ STOP_MARKER @ u16 ''.'' else instr_no_stop)
      in join [0xA]
           [trim userText,
            [],
            txt_requirements,
            u16 ''- '' @ formatInstruction,
            u16 ''- '' @ lengthInstruction,
            u16 ''- '' @ stopInstruction])"

section \<open>The completion call\<close>

text \<open>
  A request payload is an object: a list of properties in the order the source writes them.
  A property can hold \<open>undefined\<close>.
\<close>

datatype jsval =
    Undefined
  | Str jsstring
  | Num number
  | Messages "message list"
  | Strs "jsstring list"

type_synonym payload = "(string \<times> jsval) list"

text \<open>
  The \<open>params\<close> object of \<open>callLLM\<close>. Reading a property that is absent or holds
  \<open>undefined\<close> gives \<open>undefined\<close>: \<open>None\<close> here.
\<close>

record params =
  p_temperature :: "number option"
  p_max_tokens :: "number option"
  p_frequency_penalty :: "number option"
  p_presence_penalty :: "number option"
  p_stop :: "jsstring list option"

definition num_val :: "number option \<Rightarrow> jsval" where
  "num_val x = (case x of None \<Rightarrow> Undefined | Some n \<Rightarrow> Num n)"

definition strs_val :: "jsstring list option \<Rightarrow> jsval" where
  "strs_val x = (case x of None \<Rightarrow> Undefined | Some l \<Rightarrow> Strs l)"

fun is_undefined :: "jsval \<Rightarrow> bool" where
  "is_undefined Undefined = True"
| "is_undefined _ = False"

text \<open>
  What the completion client does with one request: it throws, or it returns a response
  whose first choice has a content or has none.
\<close>

datatype error = Failure jsstring

type_synonym response = "error + jsstring option"

text \<open>The calls the bot makes to the outside, in the order it makes them.\<close>

datatype effect =
    Reply jsstring "keyboard option"
  | EditMessageText jsstring keyboard
  | ApiEditMessageText chat_id message_id jsstring keyboard
  | AnswerCbQuery jsstring
  | SendChatAction jsstring
  | Create payload
  | ConsoleError error

text \<open>
  \<open>callLLM\<close> builds the payload, deletes every property that holds \<open>undefined\<close>, sends it,
  and returns the content of the first choice or the placeholder. A failure of the client
  passes through.
\<close>

definition callLLM_payload :: "message list \<Rightarrow> params \<Rightarrow> payload" where
  "callLLM_payload messages params =
     filter (\<lambda>(k, v). \<not> is_undefined v)
       [(''model'', Str MODEL),
        (''messages'', Messages messages),
        (''temperature'', num_val (p_temperature params)),
        (''max_tokens'', num_val (p_max_tokens params)),
        (''frequency_penalty'', num_val (p_frequency_penalty params)),
        (''presence_penalty'', num_val (p_presence_penalty params)),
        (''stop'', strs_val (p_stop params))]"

definition callLLM :: "message list \<Rightarrow> params \<Rightarrow> response \<Rightarrow> effect \<times> (error + jsstring)" where
  "callLLM messages params res =
     (Create (callLLM_payload messages params),
      case res of
        Inl e \<Rightarrow> Inl e
      | Inr c \<Rightarrow> Inr (case c of None \<Rightarrow> txt_empty_answer | Some t \<Rightarrow> t))"

definition UNRESTRICTED_PARAMS :: params where
  "UNRESTRICTED_PARAMS =
     \<lparr>p_temperature = Some 0.7, p_max_tokens = Some 800, p_frequency_penalty = Some 0,
      p_presence_penalty = Some 0, p_stop = None\<rparr>"

definition constrainedParams :: "settings \<Rightarrow> params" where
  \<comment> \<open>bot.mjs lines 453 to 459\<close>
  "constrainedParams s =
     \<lparr>p_temperature = Some (temperature s), p_max_tokens = Some (max_tokens s),
      p_frequency_penalty = Some (frequency_penalty s),
      p_presence_penalty = Some (presence_penalty s),
      p_stop = (if use_stop s then Some [STOP_MARKER] else None)\<rparr>"

section \<open>Screens\<close>

definition showStartScreen :: "effect list" where
  "showStartScreen = [Reply txt_start_screen (Some startKeyboard)]"

definition showPrompt :: "effect list" where
  "showPrompt = [Reply txt_prompt (Some afterAnswerKeyboard)]"

text \<open>
  \<open>showControls\<close> depends on what the transport answers: whether the edit of the pressed
  message succeeds, the id of that message, whether the edit of the remembered message
  succeeds, and the id of a newly sent message. A value is truthy when it is present and
  not \<open>0\<close>.
\<close>

datatype update_type = MessageUpdate | CallbackQuery

record transport =
  edit_ok :: bool
  callback_message_id :: "message_id option"
  api_edit_ok :: bool
  sent_message_id :: "message_id option"

definition truthy :: "message_id option \<Rightarrow> bool" where
  "truthy m = (case m of None \<Rightarrow> False | Some i \<Rightarrow> i \<noteq> 0)"

definition controlsText :: "settings \<Rightarrow> jsstring" where
  \<comment> \<open>bot.mjs lines 227 to 230\<close>
  "controlsText s = txt_controls_head @ prettySettings s @ txt_controls_tail"

definition showControls :: "update_type \<Rightarrow> chat_id \<Rightarrow> transport \<Rightarrow> store \<Rightarrow> store \<times> effect list" where
  "showControls updateType chatId env st =
     (let (s, st1) = getSettings chatId st;
          text = controlsText s;
          (keyboard, st2) = controlsKeyboard chatId st1;
          existingId = settingsMsgIdByChat st2 chatId;
          tried = (if updateType = CallbackQuery then [EditMessageText text keyboard] else [])
      in if updateType = CallbackQuery \<and> edit_ok env then
           ((if truthy (callback_message_id env)
             then st2\<lparr>settingsMsgIdByChat :=
                        (settingsMsgIdByChat st2)(chatId := callback_message_id env)\<rparr>
             else st2),
            tried)
         else if truthy existingId \<and> api_edit_ok env then
           (st2, tried @ [ApiEditMessageText chatId (the existingId) text keyboard])
         else
           (let st3 = (if truthy existingId
                       then st2\<lparr>settingsMsgIdByChat := (settingsMsgIdByChat st2)(chatId := None)\<rparr>
                       else st2);
                tried2 = (if truthy existingId
                          then tried @ [ApiEditMessageText chatId (the existingId) text keyboard]
                          else tried)
            in ((if truthy (sent_message_id env)
                 then st3\<lparr>settingsMsgIdByChat :=
                            (settingsMsgIdByChat st3)(chatId := sent_message_id env)\<rparr>
                 else st3),
                tried2 @ [Reply text (Some keyboard)])))"

section \<open>Commands and button actions\<close>

definition cmd_start :: "chat_id \<Rightarrow> transport \<Rightarrow> store \<Rightarrow> store \<times> effect list" where
  "cmd_start chatId env st =
     (let st1 = resetSession chatId st;
          (st2, shown) = showControls MessageUpdate chatId env st1
      in (st2, [Reply txt_welcome None] @ shown @ showPrompt))"

definition cmd_controls :: "chat_id \<Rightarrow> transport \<Rightarrow> store \<Rightarrow> store \<times> effect list" where
  "cmd_controls chatId env st = showControls MessageUpdate chatId env (ensureSession chatId st)"

definition cmd_reset :: "chat_id \<Rightarrow> transport \<Rightarrow> store \<Rightarrow> store \<times> effect list" where
  "cmd_reset chatId env st =
     (let st1 = resetSession chatId st;
          (st2, shown) = showControls MessageUpdate chatId env st1
      in (st2, [Reply txt_reset_done None] @ shown @ showPrompt))"

definition action_noop :: "store \<Rightarrow> store \<times> effect list" where
  "action_noop st = (st, [AnswerCbQuery (u16 '' '')])"

definition action_do_start :: "chat_id \<Rightarrow> transport \<Rightarrow> store \<Rightarrow> store \<times> effect list" where
  "action_do_start chatId env st =
     (let st1 = resetSession chatId st;
          (st2, shown) = showControls CallbackQuery chatId env st1
      in (st2, [AnswerCbQuery (u16 ''OK''), Reply txt_new_session None] @ shown @ showPrompt))"

definition action_new_question :: "store \<Rightarrow> store \<times> effect list" where
  "action_new_question st = (st, [AnswerCbQuery (u16 ''OK''), Reply txt_ask_question None])"

definition action_open_settings :: "chat_id \<Rightarrow> transport \<Rightarrow> store \<Rightarrow> store \<times> effect list" where
  "action_open_settings chatId env st =
     (let (st1, shown) = showControls CallbackQuery chatId env st
      in (st1, [AnswerCbQuery (u16 ''OK'')] @ shown))"

definition action_back_to_prompt :: "store \<Rightarrow> store \<times> effect list" where
  "action_back_to_prompt st = (st, [AnswerCbQuery (u16 ''OK'')] @ showPrompt)"

text \<open>
  The eleven settings handlers have one body: \<open>ensureSession\<close>, \<open>getSettings\<close>, an assignment
  to one property of the settings object held in the map, \<open>answerCbQuery("OK")\<close>,
  \<open>showControls\<close>. \<open>settings_action\<close> is that body, with the assignment as a parameter.
\<close>

definition settings_action ::
  "(settings \<Rightarrow> settings) \<Rightarrow> chat_id \<Rightarrow> transport \<Rightarrow> store \<Rightarrow> store \<times> effect list" where
  "settings_action assign chatId env st =
     (let st1 = ensureSession chatId st;
          (s, st2) = getSettings chatId st1;
          st3 = st2\<lparr>settingsByChat := (settingsByChat st2)(chatId \<mapsto> assign s)\<rparr>;
          (st4, shown) = showControls CallbackQuery chatId env st3
      in (st4, [AnswerCbQuery (u16 ''OK'')] @ shown))"

definition action_len :: "jsstring \<Rightarrow> chat_id \<Rightarrow> transport \<Rightarrow> store \<Rightarrow> store \<times> effect list" where
  \<comment> \<open>\<open>m\<close> is \<open>ctx.match[1]\<close>\<close>
  "action_len m = settings_action (\<lambda>s. s\<lparr>max_tokens := Number m\<rparr>)"

definition action_fmt_bullets :: "chat_id \<Rightarrow> transport \<Rightarrow> store \<Rightarrow> store \<times> effect list" where
  "action_fmt_bullets = settings_action (\<lambda>s. s\<lparr>format := Bullets\<rparr>)"

definition action_fmt_json :: "chat_id \<Rightarrow> transport \<Rightarrow> store \<Rightarrow> store \<times> effect list" where
  "action_fmt_json = settings_action (\<lambda>s. s\<lparr>format := Json\<rparr>)"

definition action_temp_02 :: "chat_id \<Rightarrow> transport \<Rightarrow> store \<Rightarrow> store \<times> effect list" where
  "action_temp_02 = settings_action (\<lambda>s. s\<lparr>temperature := 0.2\<rparr>)"

definition action_temp_09 :: "chat_id \<Rightarrow> transport \<Rightarrow> store \<Rightarrow> store \<times> effect list" where
  "action_temp_09 = settings_action (\<lambda>s. s\<lparr>temperature := 0.9\<rparr>)"

definition action_freq_0 :: "chat_id \<Rightarrow> transport \<Rightarrow> store \<Rightarrow> store \<times> effect list" where
  "action_freq_0 = settings_action (\<lambda>s. s\<lparr>frequency_penalty := 0\<rparr>)"

definition action_freq_06 :: "chat_id \<Rightarrow> transport \<Rightarrow> store \<Rightarrow> store \<times> effect list" where
  "action_freq_06 = settings_action (\<lambda>s. s\<lparr>frequency_penalty := 0.6\<rparr>)"

definition action_pres_0 :: "chat_id \<Rightarrow> transport \<Rightarrow> store \<Rightarrow> store \<times> effect list" where
  "action_pres_0 = settings_action (\<lambda>s. s\<lparr>presence_penalty := 0\<rparr>)"

definition action_pres_06 :: "chat_id \<Rightarrow> transport \<Rightarrow> store \<Rightarrow> store \<times> effect list" where
  "action_pres_06 = settings_action (\<lambda>s. s\<lparr>presence_penalty := 0.6\<rparr>)"

definition action_stop_on :: "chat_id \<Rightarrow> transport \<Rightarrow> store \<Rightarrow> store \<times> effect list" where
  "action_stop_on = settings_action (\<lambda>s. s\<lparr>use_stop := True\<rparr>)"

definition action_stop_off :: "chat_id \<Rightarrow> transport \<Rightarrow> store \<Rightarrow> store \<times> effect list" where
  "action_stop_off = settings_action (\<lambda>s. s\<lparr>use_stop := False\<rparr>)"

text \<open>
  The dispatch of a button press on its callback identifier, in the order of the
  \<open>bot.action\<close> registrations: a string trigger matches the identical identifier, the
  pattern trigger matches where \<open>match_len\<close> finds a match, the first handler that matches
  runs and none runs otherwise.
\<close>

definition on_callback_query ::
  "chat_id \<Rightarrow> jsstring \<Rightarrow> transport \<Rightarrow> store \<Rightarrow> store \<times> effect list" where
  "on_callback_query chatId d env st =
     (if d = u16 ''noop'' then action_noop st
      else if d = u16 ''do_start'' then action_do_start chatId env st
      else if d = u16 ''new_question'' then action_new_question st
      else if d = u16 ''open_settings'' then action_open_settings chatId env st
      else if d = u16 ''back_to_prompt'' then action_back_to_prompt st
      else case match_len d of
        Some m \<Rightarrow> action_len m chatId env st
      | None \<Rightarrow>
         (if d = u16 ''fmt_bullets'' then action_fmt_bullets chatId env st
          else if d = u16 ''fmt_json'' then action_fmt_json chatId env st
          else if d = u16 ''temp_0.2'' then action_temp_02 chatId env st
          else if d = u16 ''temp_0.9'' then action_temp_09 chatId env st
          else if d = u16 ''freq_0'' then action_freq_0 chatId env st
          else if d = u16 ''freq_0.6'' then action_freq_06 chatId env st
          else if d = u16 ''pres_0'' then action_pres_0 chatId env st
          else if d = u16 ''pres_0.6'' then action_pres_06 chatId env st
          else if d = u16 ''stop_on'' then action_stop_on chatId env st
          else if d = u16 ''stop_off'' then action_stop_off chatId env st
          else (st, [])))"

section \<open>Main text handler\<close>

definition catch_block :: "error \<Rightarrow> effect list" where
  \<comment> \<open>bot.mjs lines 492 to 496\<close>
  "catch_block e = [ConsoleError e, Reply txt_apology None] @ showPrompt"

definition on_text ::
  "chat_id \<Rightarrow> jsstring option \<Rightarrow> response \<Rightarrow> response \<Rightarrow> store \<Rightarrow> store \<times> effect list" where
  "on_text chatId text r1 r2 st =
     (case map_option trim text of
        None \<Rightarrow> (st, [])
      | Some userText \<Rightarrow>
          if userText = [] then (st, [])
          else if startsWith userText (u16 ''/'') then (st, [])
          else if dialogs st chatId = None \<or> settingsByChat st chatId = None
          then (st, showStartScreen)
          else
            (let (s, st1) = getSettings chatId st;
                 (history, st2) = getMessages chatId st1;
                 baseMessages = history @ [\<lparr>role = User, content = userText\<rparr>];
                 typing = SendChatAction (u16 ''typing'');
                 constrainedUser = buildConstrainedUserPrompt userText s;
                 constrainedMessages = history @ [\<lparr>role = User, content = constrainedUser\<rparr>];
                 (call1, res1) = callLLM constrainedMessages (constrainedParams s) r1
             in case res1 of
                  Inl e \<Rightarrow> (st2, [typing, call1] @ catch_block e)
                | Inr constrainedAnswerRaw \<Rightarrow>
                   (let reply1 =
                          Reply (txt_constrained_label @ prettySettings s @ [0xA, 0xA]
                                 @ safeTelegramText constrainedAnswerRaw) None;
                        (call2, res2) = callLLM baseMessages UNRESTRICTED_PARAMS r2
                    in case res2 of
                         Inl e \<Rightarrow> (st2, [typing, call1, reply1, typing, call2] @ catch_block e)
                       | Inr unrestrictedAnswerRaw \<Rightarrow>
                          (let reply2 =
                                 Reply (txt_unrestricted_label
                                        @ (u16 ''temp: '' @ numberToString 0.7
                                           @ u16 '', max_tokens: '' @ numberToString 800
                                           @ [0xA, 0xA])
                                        @ safeTelegramText unrestrictedAnswerRaw) None;
                               pushed = history
                                 @ [\<lparr>role = User, content = userText\<rparr>,
                                    \<lparr>role = Assistant, content = unrestrictedAnswerRaw\<rparr>]
                           in (st2\<lparr>dialogs := (dialogs st2)(chatId \<mapsto> pushed)\<rparr>,
                               [typing, call1, reply1, typing, call2, reply2] @ showPrompt)))))"

section \<open>The single-answer bot\<close>

text \<open>
  The second program of the repository (the source file of 76 lines) keeps one map, from
  the chat to its messages, and sends one request per text message. Its functions carry
  the suffix \<open>_000\<close>.
\<close>

type_synonym dialogs_000 = "chat_id \<rightharpoonup> message list"

definition getMessages_000 :: "chat_id \<Rightarrow> dialogs_000 \<Rightarrow> message list \<times> dialogs_000" where
  "getMessages_000 chatId d =
     (let d1 = (if d chatId = None
                then d(chatId \<mapsto> [\<lparr>role = System, content = DEFAULT_SYSTEM_000\<rparr>])
                else d)
      in (the (d1 chatId), d1))"

definition cmd_start_000 :: "chat_id \<Rightarrow> dialogs_000 \<Rightarrow> dialogs_000" where
  "cmd_start_000 chatId d = d(chatId := None)"

definition on_text_000 ::
  "chat_id \<Rightarrow> jsstring option \<Rightarrow> response \<Rightarrow> dialogs_000 \<Rightarrow> dialogs_000 \<times> effect list" where
  "on_text_000 chatId msg_text r d =
     (case map_option trim msg_text of
        None \<Rightarrow> (d, [])
      | Some text \<Rightarrow>
          if text = [] then (d, [])
          else
            (let (messages0, d1) = getMessages_000 chatId d;
                 messages = messages0 @ [\<lparr>role = User, content = text\<rparr>];
                 d2 = d1(chatId \<mapsto> messages);
                 typing = SendChatAction (u16 ''typing'');
                 call = Create [(''model'', Str (u16 ''llama-3.3-70b-versatile'')),
                                (''messages'', Messages messages),
                                (''temperature'', Num 0.7)]
             in case r of
                  Inl e \<Rightarrow> (d2, [typing, call, ConsoleError e, Reply txt_apology None])
                | Inr c \<Rightarrow>
                   (let answer = (case c of None \<Rightarrow> txt_empty_answer | Some t \<Rightarrow> t);
                        d3 = d2(chatId \<mapsto> messages @ [\<lparr>role = Assistant, content = answer\<rparr>]);
                        safe = (if length answer > 3500 then take 3500 answer @ txt_truncated
                                else answer)
                    in (d3, [typing, call, Reply safe None]))))"

section \<open>Reading the calls a handler made\<close>

text \<open>
  The theorems below speak about the messages sent, the requests issued and the screens
  shown. These functions read them off the list of calls.
\<close>

fun reply_of :: "effect \<Rightarrow> (jsstring \<times> keyboard option) list" where
  "reply_of (Reply t k) = [(t, k)]"
| "reply_of _ = []"

definition replies :: "effect list \<Rightarrow> (jsstring \<times> keyboard option) list" where
  "replies effs = concat (map reply_of effs)"

fun request_of :: "effect \<Rightarrow> payload list" where
  "request_of (Create p) = [p]"
| "request_of _ = []"

definition requests :: "effect list \<Rightarrow> payload list" where
  "requests effs = concat (map request_of effs)"

fun screen_of :: "effect \<Rightarrow> (jsstring \<times> keyboard) list" where
  "screen_of (EditMessageText t k) = [(t, k)]"
| "screen_of (ApiEditMessageText c i t k) = [(t, k)]"
| "screen_of (Reply t (Some k)) = [(t, k)]"
| "screen_of _ = []"

definition screens :: "effect list \<Rightarrow> (jsstring \<times> keyboard) list" where
  "screens effs = concat (map screen_of effs)"

text \<open>
  The settings buttons of \<open>controlsKeyboard\<close>, each with the assignment its label stands
  for: the callback identifier of the button labelled \<open>256\<close> in the max_tokens row is
  \<open>len_256\<close>, and so on.
\<close>

definition button_meaning :: "(jsstring \<times> (settings \<Rightarrow> settings)) list" where
  "button_meaning =
     [(u16 ''len_64'', \<lambda>s. s\<lparr>max_tokens := 64\<rparr>),
      (u16 ''len_128'', \<lambda>s. s\<lparr>max_tokens := 128\<rparr>),
      (u16 ''len_256'', \<lambda>s. s\<lparr>max_tokens := 256\<rparr>),
      (u16 ''len_512'', \<lambda>s. s\<lparr>max_tokens := 512\<rparr>),
      (u16 ''fmt_bullets'', \<lambda>s. s\<lparr>format := Bullets\<rparr>),
      (u16 ''fmt_json'', \<lambda>s. s\<lparr>format := Json\<rparr>),
      (u16 ''temp_0.2'', \<lambda>s. s\<lparr>temperature := 0.2\<rparr>),
      (u16 ''temp_0.9'', \<lambda>s. s\<lparr>temperature := 0.9\<rparr>),
      (u16 ''freq_0'', \<lambda>s. s\<lparr>frequency_penalty := 0\<rparr>),
      (u16 ''freq_0.6'', \<lambda>s. s\<lparr>frequency_penalty := 0.6\<rparr>),
      (u16 ''pres_0'', \<lambda>s. s\<lparr>presence_penalty := 0\<rparr>),
      (u16 ''pres_0.6'', \<lambda>s. s\<lparr>presence_penalty := 0.6\<rparr>),
      (u16 ''stop_on'', \<lambda>s. s\<lparr>use_stop := True\<rparr>),
      (u16 ''stop_off'', \<lambda>s. s\<lparr>use_stop := False\<rparr>)]"

text \<open>
  Which calls put a screen on display, given the answers of the transport: the edit of the
  pressed message when \<open>edit_ok\<close>, the edit of the remembered message when
  \<open>api_edit_ok\<close>, a sent message always. \<open>shown_screens\<close> lists the screens that were
  displayed, as opposed to \<open>screens\<close>, which lists every attempt.
\<close>

fun delivered :: "transport \<Rightarrow> effect \<Rightarrow> bool" where
  "delivered env (EditMessageText t k) = edit_ok env"
| "delivered env (ApiEditMessageText c i t k) = api_edit_ok env"
| "delivered env (Reply t k) = True"
| "delivered env (AnswerCbQuery t) = False"
| "delivered env (SendChatAction t) = False"
| "delivered env (Create p) = False"
| "delivered env (ConsoleError e) = False"

definition shown_screens :: "transport \<Rightarrow> effect list \<Rightarrow> (jsstring \<times> keyboard) list" where
  "shown_screens env effs = concat (map screen_of (filter (delivered env) effs))"

text \<open>The label of the button of a keyboard that carries a given callback identifier.\<close>

definition label_of :: "keyboard \<Rightarrow> jsstring \<Rightarrow> jsstring option" where
  "label_of kb d = map_of (map (\<lambda>(l, d'). (d', l)) (concat kb)) d"

text \<open>
  The settings buttons once more, now with the label each carries when it is not selected.
\<close>

definition settings_buttons :: "(jsstring \<times> jsstring \<times> (settings \<Rightarrow> settings)) list" where
  "settings_buttons =
     [(u16 ''len_64'', u16 ''64'', \<lambda>s. s\<lparr>max_tokens := 64\<rparr>),
      (u16 ''len_128'', u16 ''128'', \<lambda>s. s\<lparr>max_tokens := 128\<rparr>),
      (u16 ''len_256'', u16 ''256'', \<lambda>s. s\<lparr>max_tokens := 256\<rparr>),
      (u16 ''len_512'', u16 ''512'', \<lambda>s. s\<lparr>max_tokens := 512\<rparr>),
      (u16 ''fmt_bullets'', txt_list, \<lambda>s. s\<lparr>format := Bullets\<rparr>),
      (u16 ''fmt_json'', u16 ''JSON'', \<lambda>s. s\<lparr>format := Json\<rparr>),
      (u16 ''temp_0.2'', u16 ''0.2'', \<lambda>s. s\<lparr>temperature := 0.2\<rparr>),
      (u16 ''temp_0.9'', u16 ''0.9'', \<lambda>s. s\<lparr>temperature := 0.9\<rparr>),
      (u16 ''freq_0'', u16 ''0'', \<lambda>s. s\<lparr>frequency_penalty := 0\<rparr>),
      (u16 ''freq_0.6'', u16 ''0.6'', \<lambda>s. s\<lparr>frequency_penalty := 0.6\<rparr>),
      (u16 ''pres_0'', u16 ''0'', \<lambda>s. s\<lparr>presence_penalty := 0\<rparr>),
      (u16 ''pres_0.6'', u16 ''0.6'', \<lambda>s. s\<lparr>presence_penalty := 0.6\<rparr>),
      (u16 ''stop_on'', u16 ''ON'', \<lambda>s. s\<lparr>use_stop := True\<rparr>),
      (u16 ''stop_off'', u16 ''OFF'', \<lambda>s. s\<lparr>use_stop := False\<rparr>)]"

text \<open>
  Settings whose numbers are the default or a value a keyboard button assigns. These are
  the numbers \<open>numberToString\<close> prints as JavaScript does.
\<close>

definition keyboard_values :: "settings \<Rightarrow> bool" where
  "keyboard_values s \<longleftrightarrow>
     max_tokens s \<in> {64, 128, 256, 512} \<and> temperature s \<in> {0.2, 0.7, 0.9}
     \<and> frequency_penalty s \<in> {0, 0.6} \<and> presence_penalty s \<in> {0, 0.6}"

section \<open>The session store\<close>

lemma ensureSession_existing:
  "dialogs st c = Some h \<Longrightarrow> settingsByChat st c = Some s \<Longrightarrow> ensureSession c st = st"
  by (simp add: ensureSession_def)

lemma getSettings_existing:
  "dialogs st c = Some h \<Longrightarrow> settingsByChat st c = Some s \<Longrightarrow> getSettings c st = (s, st)"
  by (simp add: getSettings_def ensureSession_def)

lemma getMessages_existing:
  "dialogs st c = Some h \<Longrightarrow> settingsByChat st c = Some s \<Longrightarrow> getMessages c st = (h, st)"
  by (simp add: getMessages_def ensureSession_def)

lemma reset_has_session:
  "dialogs (resetSession c st) c = Some [\<lparr>role = System, content = DEFAULT_SYSTEM\<rparr>]"
  "settingsByChat (resetSession c st) c = Some newDefaultSettings"
  by (simp_all add: resetSession_def ensureSession_def)

text \<open>
  Claim C5. For a chat that has no entry in the maps, \<open>ensureSession\<close> creates a history
  that holds the system message alone (length 1) and the default settings: max_tokens 128,
  format bullets, temperature 0.7, both penalties 0, use_stop true. From any store
  whatever, \<open>resetSession\<close> followed by \<open>ensureSession\<close> leaves the chat with that same
  history and those same settings, and without a remembered settings message: the state a
  chat never seen before gets.
\<close>

theorem session_defaults:
  "(dialogs st c = None \<and> settingsByChat st c = None \<longrightarrow>
      dialogs (ensureSession c st) c = Some [\<lparr>role = System, content = DEFAULT_SYSTEM\<rparr>]
      \<and> length (fst (getMessages c st)) = 1
      \<and> settingsByChat (ensureSession c st) c =
          Some \<lparr>max_tokens = 128, format = Bullets, temperature = 7 / 10, frequency_penalty = 0,
                presence_penalty = 0, use_stop = True\<rparr>)
   \<and> dialogs (ensureSession c (resetSession c st)) c =
         Some [\<lparr>role = System, content = DEFAULT_SYSTEM\<rparr>]
   \<and> settingsByChat (ensureSession c (resetSession c st)) c =
         Some \<lparr>max_tokens = 128, format = Bullets, temperature = 7 / 10, frequency_penalty = 0,
               presence_penalty = 0, use_stop = True\<rparr>
   \<and> settingsMsgIdByChat (ensureSession c (resetSession c st)) c = None
   \<and> dialogs (ensureSession c (resetSession c st)) c = dialogs (ensureSession c empty_store) c
   \<and> settingsByChat (ensureSession c (resetSession c st)) c =
       settingsByChat (ensureSession c empty_store) c
   \<and> settingsMsgIdByChat (ensureSession c (resetSession c st)) c =
       settingsMsgIdByChat (ensureSession c empty_store) c"
  by (simp add: ensureSession_def resetSession_def getMessages_def newDefaultSettings_def
      empty_store_def Let_def)

text \<open>
  The witness: chat 7 in the empty store, and chat 7 after a press of the temperature 0.9
  button followed by a reset.
\<close>

theorem session_defaults_witness:
  "dialogs empty_store 7 = None \<and> settingsByChat empty_store 7 = None
   \<and> dialogs (ensureSession 7 empty_store) 7 = Some [\<lparr>role = System, content = DEFAULT_SYSTEM\<rparr>]
   \<and> max_tokens (the (settingsByChat (ensureSession 7 empty_store) 7)) = 128
   \<and> temperature (fst (getSettings 7 (resetSession 7
          (fst (on_callback_query 7 (u16 ''temp_0.9'')
                 \<lparr>edit_ok = True, callback_message_id = Some 5, api_edit_ok = True,
                  sent_message_id = None\<rparr> empty_store))))) = 7 / 10"
  using session_defaults [of empty_store 7]
    session_defaults [of "fst (on_callback_query 7 (u16 ''temp_0.9'')
                 \<lparr>edit_ok = True, callback_message_id = Some 5, api_edit_ok = True,
                  sent_message_id = None\<rparr> empty_store)" 7]
  by (simp add: empty_store_def getSettings_def)

section \<open>The text handlers\<close>

text \<open>
  What the text handler of bot.mjs does once it has passed its guards (the chat has its
  history \<open>h\<close> and its settings \<open>s\<close>, the trimmed text is not empty and is not a
  command), for each outcome of the two completion calls.
\<close>

lemma on_text_first_call_fails:
  assumes "dialogs st c = Some h" and "settingsByChat st c = Some s"
    and "trim t \<noteq> []" and "\<not> startsWith (trim t) (u16 ''/'')"
  shows "on_text c (Some t) (Inl e) r2 st =
    (st, [SendChatAction (u16 ''typing''),
          Create (callLLM_payload
                   (h @ [\<lparr>role = User, content = buildConstrainedUserPrompt (trim t) s\<rparr>])
                   (constrainedParams s)),
          ConsoleError e, Reply txt_apology None, Reply txt_prompt (Some afterAnswerKeyboard)])"
  using assms
  by (simp add: on_text_def getSettings_existing getMessages_existing callLLM_def catch_block_def
      showPrompt_def Let_def)

lemma on_text_second_call_fails:
  assumes "dialogs st c = Some h" and "settingsByChat st c = Some s"
    and "trim t \<noteq> []" and "\<not> startsWith (trim t) (u16 ''/'')"
  shows "on_text c (Some t) (Inr c1) (Inl e) st =
    (st, [SendChatAction (u16 ''typing''),
          Create (callLLM_payload
                   (h @ [\<lparr>role = User, content = buildConstrainedUserPrompt (trim t) s\<rparr>])
                   (constrainedParams s)),
          Reply (txt_constrained_label @ prettySettings s @ [0xA, 0xA]
                 @ safeTelegramText (case c1 of None \<Rightarrow> txt_empty_answer | Some x \<Rightarrow> x)) None,
          SendChatAction (u16 ''typing''),
          Create (callLLM_payload (h @ [\<lparr>role = User, content = trim t\<rparr>]) UNRESTRICTED_PARAMS),
          ConsoleError e, Reply txt_apology None, Reply txt_prompt (Some afterAnswerKeyboard)])"
  using assms
  by (simp add: on_text_def getSettings_existing getMessages_existing callLLM_def catch_block_def
      showPrompt_def Let_def)

lemma on_text_both_calls_succeed:
  assumes "dialogs st c = Some h" and "settingsByChat st c = Some s"
    and "trim t \<noteq> []" and "\<not> startsWith (trim t) (u16 ''/'')"
  shows "on_text c (Some t) (Inr c1) (Inr c2) st =
    (st\<lparr>dialogs := (dialogs st)(c \<mapsto> h @ [\<lparr>role = User, content = trim t\<rparr>,
            \<lparr>role = Assistant,
             content = (case c2 of None \<Rightarrow> txt_empty_answer | Some x \<Rightarrow> x)\<rparr>])\<rparr>,
     [SendChatAction (u16 ''typing''),
      Create (callLLM_payload
               (h @ [\<lparr>role = User, content = buildConstrainedUserPrompt (trim t) s\<rparr>])
               (constrainedParams s)),
      Reply (txt_constrained_label @ prettySettings s @ [0xA, 0xA]
             @ safeTelegramText (case c1 of None \<Rightarrow> txt_empty_answer | Some x \<Rightarrow> x)) None,
      SendChatAction (u16 ''typing''),
      Create (callLLM_payload (h @ [\<lparr>role = User, content = trim t\<rparr>]) UNRESTRICTED_PARAMS),
      Reply (txt_unrestricted_label @ u16 ''temp: '' @ numberToString 0.7
             @ u16 '', max_tokens: '' @ numberToString 800 @ [0xA, 0xA]
             @ safeTelegramText (case c2 of None \<Rightarrow> txt_empty_answer | Some x \<Rightarrow> x)) None,
      Reply txt_prompt (Some afterAnswerKeyboard)])"
  using assms
  by (simp add: on_text_def getSettings_existing getMessages_existing callLLM_def
      showPrompt_def Let_def)

lemma payload_messages: "map_of (callLLM_payload ms p) ''messages'' = Some (Messages ms)"
  by (simp add: callLLM_payload_def)

lemma label_is_not_apology: "txt_constrained_label @ x \<noteq> txt_apology"
  by (simp add: txt_constrained_label_def txt_apology_def)

lemma prompt_is_not_apology: "txt_prompt \<noteq> txt_apology"
  by (simp add: txt_prompt_def txt_apology_def)

lemma trim_hello: "trim (u16 ''hello'') = u16 ''hello''"
  by (simp add: trim_def isWhiteSpace_def u16_def)

lemma hello_nonempty: "u16 ''hello'' \<noteq> []"
  by (simp add: u16_def)

lemma hello_no_command: "\<not> startsWith (u16 ''hello'') (u16 ''/'')"
  by (simp add: startsWith_def u16_def)

lemma length_u16: "length (u16 cs) = length cs"
  by (simp add: u16_def)

text \<open>
  Claim C1. When the text handler of bot.mjs has issued a completion call and that call
  fails (the constrained one, or the unrestricted one after a constrained answer), the
  store is left exactly as it was: the history of the chat gains neither a user message
  nor an assistant message, and the settings and the remembered settings message are
  unchanged, for every chat. The failure is logged, exactly one reply carries the apology,
  and the last call re-renders the Prompt screen.
\<close>

theorem completion_failure_is_contained:
  "dialogs st c = Some h \<and> settingsByChat st c = Some s \<and> trim t \<noteq> []
     \<and> \<not> startsWith (trim t) (u16 ''/'')
     \<and> (r1 = Inl e \<or> (\<exists>c1. r1 = Inr c1 \<and> r2 = Inl e)) \<longrightarrow>
       fst (on_text c (Some t) r1 r2 st) = st
       \<and> length [x \<leftarrow> replies (snd (on_text c (Some t) r1 r2 st)). fst x = txt_apology] = 1
       \<and> last (snd (on_text c (Some t) r1 r2 st)) = Reply txt_prompt (Some afterAnswerKeyboard)
       \<and> ConsoleError e \<in> set (snd (on_text c (Some t) r1 r2 st))"
proof (intro impI, elim conjE)
  assume pre: "dialogs st c = Some h" "settingsByChat st c = Some s" "trim t \<noteq> []"
      "\<not> startsWith (trim t) (u16 ''/'')"
    and fail: "r1 = Inl e \<or> (\<exists>c1. r1 = Inr c1 \<and> r2 = Inl e)"
  from fail show "fst (on_text c (Some t) r1 r2 st) = st
       \<and> length [x \<leftarrow> replies (snd (on_text c (Some t) r1 r2 st)). fst x = txt_apology] = 1
       \<and> last (snd (on_text c (Some t) r1 r2 st)) = Reply txt_prompt (Some afterAnswerKeyboard)
       \<and> ConsoleError e \<in> set (snd (on_text c (Some t) r1 r2 st))"
  proof
    assume "r1 = Inl e"
    then show ?thesis
      by (simp add: on_text_first_call_fails [OF pre] replies_def prompt_is_not_apology)
  next
    assume "\<exists>c1. r1 = Inr c1 \<and> r2 = Inl e"
    then obtain c1 where "r1 = Inr c1" "r2 = Inl e" by blast
    then show ?thesis
      by (simp add: on_text_second_call_fails [OF pre] replies_def prompt_is_not_apology
          label_is_not_apology)
  qed
qed

theorem completion_failure_is_contained_witness:
  "dialogs (resetSession 1 empty_store) 1 = Some [\<lparr>role = System, content = DEFAULT_SYSTEM\<rparr>]
   \<and> settingsByChat (resetSession 1 empty_store) 1 = Some newDefaultSettings
   \<and> trim (u16 ''hello'') \<noteq> []
   \<and> \<not> startsWith (trim (u16 ''hello'')) (u16 ''/'')
   \<and> fst (on_text 1 (Some (u16 ''hello'')) (Inl (Failure [])) (Inr None)
            (resetSession 1 empty_store)) = resetSession 1 empty_store
   \<and> length [x \<leftarrow> replies (snd (on_text 1 (Some (u16 ''hello'')) (Inl (Failure [])) (Inr None)
            (resetSession 1 empty_store))). fst x = txt_apology] = 1
   \<and> last (snd (on_text 1 (Some (u16 ''hello'')) (Inl (Failure [])) (Inr None)
            (resetSession 1 empty_store))) = Reply txt_prompt (Some afterAnswerKeyboard)
   \<and> fst (on_text 1 (Some (u16 ''hello'')) (Inr (Some (u16 ''hi''))) (Inl (Failure []))
            (resetSession 1 empty_store)) = resetSession 1 empty_store"
  using completion_failure_is_contained [where st = "resetSession 1 empty_store" and c = 1
      and h = "[\<lparr>role = System, content = DEFAULT_SYSTEM\<rparr>]" and s = newDefaultSettings
      and t = "u16 ''hello''" and ?r1.0 = "Inl (Failure [])" and e = "Failure []"
      and ?r2.0 = "Inr None"]
    completion_failure_is_contained [where st = "resetSession 1 empty_store" and c = 1
      and h = "[\<lparr>role = System, content = DEFAULT_SYSTEM\<rparr>]" and s = newDefaultSettings
      and t = "u16 ''hello''" and ?r1.0 = "Inr (Some (u16 ''hi''))" and e = "Failure []"
      and ?r2.0 = "Inl (Failure [])"]
  by (simp add: reset_has_session trim_hello hello_nonempty hello_no_command)

text \<open>
  The single-answer bot issues one request, which is neither the constrained nor the
  unrestricted one. It appends the user message before the call; when the call fails it
  appends nothing more, logs the failure and sends the apology alone.
\<close>

lemma on_text_000_call_fails:
  "trim t \<noteq> [] \<Longrightarrow>
   fst (on_text_000 c (Some t) (Inl e) d) =
     (snd (getMessages_000 c d))
       (c \<mapsto> fst (getMessages_000 c d) @ [\<lparr>role = User, content = trim t\<rparr>])
   \<and> replies (snd (on_text_000 c (Some t) (Inl e) d)) = [(txt_apology, None)]
   \<and> ConsoleError e \<in> set (snd (on_text_000 c (Some t) (Inl e) d))"
  by (simp add: on_text_000_def getMessages_000_def replies_def Let_def)

text \<open>
  Claim C2 as stated fails: in a fresh conversation, after a constrained answer and a
  failing unrestricted call, the history is \<open>[system]\<close>, not \<open>[system, user:hello]\<close>.
\<close>

theorem failed_unrestricted_call_history:
  "dialogs (resetSession 1 empty_store) 1 = Some [\<lparr>role = System, content = DEFAULT_SYSTEM\<rparr>]
   \<and> dialogs (fst (on_text 1 (Some (u16 ''hello'')) (Inr (Some (u16 ''hi''))) (Inl (Failure []))
                    (resetSession 1 empty_store))) 1
       = Some [\<lparr>role = System, content = DEFAULT_SYSTEM\<rparr>]
   \<and> dialogs (fst (on_text 1 (Some (u16 ''hello'')) (Inr (Some (u16 ''hi''))) (Inl (Failure []))
                    (resetSession 1 empty_store))) 1
       \<noteq> Some [\<lparr>role = System, content = DEFAULT_SYSTEM\<rparr>,
                \<lparr>role = User, content = u16 ''hello''\<rparr>]"
proof -
  have "on_text 1 (Some (u16 ''hello'')) (Inr (Some (u16 ''hi''))) (Inl (Failure []))
          (resetSession 1 empty_store) = (resetSession 1 empty_store,
          snd (on_text 1 (Some (u16 ''hello'')) (Inr (Some (u16 ''hi''))) (Inl (Failure []))
          (resetSession 1 empty_store)))"
    by (simp add: on_text_second_call_fails [OF reset_has_session] trim_hello hello_nonempty
        hello_no_command)
  then have "fst (on_text 1 (Some (u16 ''hello'')) (Inr (Some (u16 ''hi''))) (Inl (Failure []))
          (resetSession 1 empty_store)) = resetSession 1 empty_store"
    by (metis fst_conv)
  then show ?thesis
    by (simp add: reset_has_session)
qed

text \<open>
  Claim C2, as amended. A fresh conversation (just reset) receives \<open>hello\<close>, the
  constrained call succeeds and the unrestricted call fails: the store is unchanged, so the
  history is still \<open>[system]\<close> and the user message is not appended; exactly one reply
  carries the apology; the last call re-renders the Prompt screen. The list
  \<open>[system, user:hello]\<close> is the message list of the failed request, not the history.
\<close>

theorem failed_unrestricted_call_scenario:
  "fst (on_text c (Some (u16 ''hello'')) (Inr c1) (Inl e) (resetSession c st)) = resetSession c st
   \<and> dialogs (fst (on_text c (Some (u16 ''hello'')) (Inr c1) (Inl e) (resetSession c st))) c
       = Some [\<lparr>role = System, content = DEFAULT_SYSTEM\<rparr>]
   \<and> length [x \<leftarrow> replies (snd (on_text c (Some (u16 ''hello'')) (Inr c1) (Inl e)
                 (resetSession c st))). fst x = txt_apology] = 1
   \<and> last (snd (on_text c (Some (u16 ''hello'')) (Inr c1) (Inl e) (resetSession c st)))
       = Reply txt_prompt (Some afterAnswerKeyboard)
   \<and> map_of (last (requests (snd (on_text c (Some (u16 ''hello'')) (Inr c1) (Inl e)
                 (resetSession c st))))) ''messages''
       = Some (Messages [\<lparr>role = System, content = DEFAULT_SYSTEM\<rparr>,
                         \<lparr>role = User, content = u16 ''hello''\<rparr>])"
proof -
  have ne: "trim (u16 ''hello'') \<noteq> []"
    by (simp add: trim_hello hello_nonempty)
  have nc: "\<not> startsWith (trim (u16 ''hello'')) (u16 ''/'')"
    by (simp add: trim_hello hello_no_command)
  note run = on_text_second_call_fails [OF reset_has_session ne nc]
  show ?thesis
    unfolding run
    by (simp add: reset_has_session replies_def requests_def label_is_not_apology
        prompt_is_not_apology payload_messages trim_hello)
qed

text \<open>
  Claim C3. When both completion calls succeed, the handler issues two requests: the
  constrained one carries the history plus the constrained prompt, the unrestricted one
  carries the history as it was before the event plus the user text (the text of the
  message, trimmed, as the handler reads it). Afterwards the history of the chat is the old
  one followed by two entries, the user text as a user message and the unrestricted answer
  as an assistant message; neither the constrained prompt nor the constrained answer is
  appended. The other chats, the settings and the remembered settings message are unchanged,
  three replies are sent and the last is the Prompt screen.
\<close>

theorem history_grows_by_unrestricted_exchange:
  "dialogs st c = Some h \<and> settingsByChat st c = Some s \<and> trim t \<noteq> []
     \<and> \<not> startsWith (trim t) (u16 ''/'') \<longrightarrow>
   (let res = on_text c (Some t) (Inr c1) (Inr c2) st;
        a2 = (case c2 of None \<Rightarrow> txt_empty_answer | Some x \<Rightarrow> x)
    in requests (snd res) =
         [callLLM_payload (h @ [\<lparr>role = User, content = buildConstrainedUserPrompt (trim t) s\<rparr>])
            (constrainedParams s),
          callLLM_payload (h @ [\<lparr>role = User, content = trim t\<rparr>]) UNRESTRICTED_PARAMS]
     \<and> map_of (requests (snd res) ! 0) ''messages''
         = Some (Messages (h @ [\<lparr>role = User, content = buildConstrainedUserPrompt (trim t) s\<rparr>]))
     \<and> map_of (requests (snd res) ! 1) ''messages''
         = Some (Messages (h @ [\<lparr>role = User, content = trim t\<rparr>]))
     \<and> dialogs (fst res) c
         = Some (h @ [\<lparr>role = User, content = trim t\<rparr>, \<lparr>role = Assistant, content = a2\<rparr>])
     \<and> (\<forall>c'. c' \<noteq> c \<longrightarrow> dialogs (fst res) c' = dialogs st c')
     \<and> settingsByChat (fst res) = settingsByChat st
     \<and> settingsMsgIdByChat (fst res) = settingsMsgIdByChat st
     \<and> length (replies (snd res)) = 3
     \<and> last (snd res) = Reply txt_prompt (Some afterAnswerKeyboard))"
proof (intro impI, elim conjE)
  assume pre: "dialogs st c = Some h" "settingsByChat st c = Some s" "trim t \<noteq> []"
      "\<not> startsWith (trim t) (u16 ''/'')"
  show "(let res = on_text c (Some t) (Inr c1) (Inr c2) st;
        a2 = (case c2 of None \<Rightarrow> txt_empty_answer | Some x \<Rightarrow> x)
    in requests (snd res) =
         [callLLM_payload (h @ [\<lparr>role = User, content = buildConstrainedUserPrompt (trim t) s\<rparr>])
            (constrainedParams s),
          callLLM_payload (h @ [\<lparr>role = User, content = trim t\<rparr>]) UNRESTRICTED_PARAMS]
     \<and> map_of (requests (snd res) ! 0) ''messages''
         = Some (Messages (h @ [\<lparr>role = User, content = buildConstrainedUserPrompt (trim t) s\<rparr>]))
     \<and> map_of (requests (snd res) ! 1) ''messages''
         = Some (Messages (h @ [\<lparr>role = User, content = trim t\<rparr>]))
     \<and> dialogs (fst res) c
         = Some (h @ [\<lparr>role = User, content = trim t\<rparr>, \<lparr>role = Assistant, content = a2\<rparr>])
     \<and> (\<forall>c'. c' \<noteq> c \<longrightarrow> dialogs (fst res) c' = dialogs st c')
     \<and> settingsByChat (fst res) = settingsByChat st
     \<and> settingsMsgIdByChat (fst res) = settingsMsgIdByChat st
     \<and> length (replies (snd res)) = 3
     \<and> last (snd res) = Reply txt_prompt (Some afterAnswerKeyboard))"
    unfolding on_text_both_calls_succeed [OF pre] Let_def
    by (simp add: requests_def replies_def payload_messages)
qed

theorem history_grows_by_unrestricted_exchange_witness:
  "dialogs (resetSession 1 empty_store) 1 = Some [\<lparr>role = System, content = DEFAULT_SYSTEM\<rparr>]
   \<and> settingsByChat (resetSession 1 empty_store) 1 = Some newDefaultSettings
   \<and> trim (u16 ''hello'') \<noteq> []
   \<and> \<not> startsWith (trim (u16 ''hello'')) (u16 ''/'')
   \<and> dialogs (fst (on_text 1 (Some (u16 ''hello'')) (Inr (Some (u16 ''short'')))
                    (Inr (Some (u16 ''long''))) (resetSession 1 empty_store))) 1
       = Some [\<lparr>role = System, content = DEFAULT_SYSTEM\<rparr>,
               \<lparr>role = User, content = u16 ''hello''\<rparr>,
               \<lparr>role = Assistant, content = u16 ''long''\<rparr>]"
  using history_grows_by_unrestricted_exchange [where st = "resetSession 1 empty_store" and c = 1
      and h = "[\<lparr>role = System, content = DEFAULT_SYSTEM\<rparr>]" and s = newDefaultSettings
      and t = "u16 ''hello''" and ?c1.0 = "Some (u16 ''short'')" and ?c2.0 = "Some (u16 ''long'')"]
  by (simp add: reset_has_session trim_hello hello_nonempty hello_no_command Let_def)

text \<open>
  Claim C4. \<open>safeTelegramText\<close> returns the first 3500 code units followed by the
  truncation marker for a text longer than 3500, and the text itself otherwise. The
  constrained and the unrestricted reply of bot.mjs are their labels followed by
  \<open>safeTelegramText\<close> of the answer, and the reply of the single-answer bot is
  \<open>safeTelegramText\<close> of the answer.
\<close>

theorem replies_are_truncated:
  "(length a > 3500 \<longrightarrow> safeTelegramText a = take 3500 a @ txt_truncated)
   \<and> (length a \<le> 3500 \<longrightarrow> safeTelegramText a = a)
   \<and> (dialogs st c = Some h \<and> settingsByChat st c = Some s \<and> trim t \<noteq> []
        \<and> \<not> startsWith (trim t) (u16 ''/'') \<longrightarrow>
        replies (snd (on_text c (Some t) (Inr ca) (Inr cb) st))
          = [(txt_constrained_label @ prettySettings s @ [0xA, 0xA]
                @ safeTelegramText (case ca of None \<Rightarrow> txt_empty_answer | Some x \<Rightarrow> x), None),
             (txt_unrestricted_label @ u16 ''temp: '' @ numberToString 0.7
                @ u16 '', max_tokens: '' @ numberToString 800 @ [0xA, 0xA]
                @ safeTelegramText (case cb of None \<Rightarrow> txt_empty_answer | Some x \<Rightarrow> x), None),
             (txt_prompt, Some afterAnswerKeyboard)])
   \<and> (trim t \<noteq> [] \<longrightarrow>
        replies (snd (on_text_000 c (Some t) (Inr ca) d))
          = [(safeTelegramText (case ca of None \<Rightarrow> txt_empty_answer | Some x \<Rightarrow> x), None)])"
proof -
  have two: "replies (snd (on_text c (Some t) (Inr ca) (Inr cb) st))
          = [(txt_constrained_label @ prettySettings s @ [0xA, 0xA]
                @ safeTelegramText (case ca of None \<Rightarrow> txt_empty_answer | Some x \<Rightarrow> x), None),
             (txt_unrestricted_label @ u16 ''temp: '' @ numberToString 0.7
                @ u16 '', max_tokens: '' @ numberToString 800 @ [0xA, 0xA]
                @ safeTelegramText (case cb of None \<Rightarrow> txt_empty_answer | Some x \<Rightarrow> x), None),
             (txt_prompt, Some afterAnswerKeyboard)]"
    if pre: "dialogs st c = Some h" "settingsByChat st c = Some s" "trim t \<noteq> []"
      "\<not> startsWith (trim t) (u16 ''/'')"
    unfolding on_text_both_calls_succeed [OF pre]
    by (simp add: replies_def)
  have one: "replies (snd (on_text_000 c (Some t) (Inr ca) d))
          = [(safeTelegramText (case ca of None \<Rightarrow> txt_empty_answer | Some x \<Rightarrow> x), None)]"
    if "trim t \<noteq> []"
    using that
    by (simp add: on_text_000_def getMessages_000_def replies_def safeTelegramText_def Let_def)
  from two one show ?thesis
    by (simp add: safeTelegramText_def)
qed

theorem replies_are_truncated_witness:
  "length (replicate 3501 (0x61 :: 16 word)) > 3500
   \<and> safeTelegramText (replicate 3501 0x61) = replicate 3500 0x61 @ txt_truncated
   \<and> length (u16 ''hi'') \<le> 3500
   \<and> safeTelegramText (u16 ''hi'') = u16 ''hi''
   \<and> dialogs (resetSession 1 empty_store) 1 = Some [\<lparr>role = System, content = DEFAULT_SYSTEM\<rparr>]
   \<and> settingsByChat (resetSession 1 empty_store) 1 = Some newDefaultSettings
   \<and> trim (u16 ''hello'') \<noteq> []
   \<and> \<not> startsWith (trim (u16 ''hello'')) (u16 ''/'')
   \<and> map fst (replies (snd (on_text 1 (Some (u16 ''hello'')) (Inr (Some (replicate 3501 0x61)))
         (Inr (Some (u16 ''hi''))) (resetSession 1 empty_store))))
       = [txt_constrained_label @ prettySettings newDefaultSettings @ [0xA, 0xA]
            @ replicate 3500 0x61 @ txt_truncated,
          txt_unrestricted_label @ u16 ''temp: '' @ numberToString 0.7
            @ u16 '', max_tokens: '' @ numberToString 800 @ [0xA, 0xA] @ u16 ''hi'',
          txt_prompt]
   \<and> replies (snd (on_text_000 1 (Some (u16 ''hello'')) (Inr (Some (replicate 3501 0x61)))
         Map.empty)) = [(replicate 3500 0x61 @ txt_truncated, None)]"
  using replies_are_truncated [where a = "replicate 3501 0x61" and t = "u16 ''hello''" and c = 1
      and d = Map.empty and st = "resetSession 1 empty_store"
      and ca = "Some (replicate 3501 0x61)" and cb = "Some (u16 ''hi'')"
      and h = "[\<lparr>role = System, content = DEFAULT_SYSTEM\<rparr>]" and s = newDefaultSettings]
    replies_are_truncated [where a = "u16 ''hi''" and t = "u16 ''hello''" and c = 1
      and d = Map.empty and st = "resetSession 1 empty_store"
      and ca = "Some (replicate 3501 0x61)" and cb = "Some (u16 ''hi'')"
      and h = "[\<lparr>role = System, content = DEFAULT_SYSTEM\<rparr>]" and s = newDefaultSettings]
  by (simp add: reset_has_session trim_hello hello_nonempty hello_no_command length_u16)

text \<open>
  Claim C10. A text message whose text is absent, or trims to the empty string, changes
  nothing and calls nothing: both text handlers return the store they were given (history,
  settings and remembered settings message of every chat) and make no call to the
  transport or to the completion client.
\<close>

theorem empty_text_is_noop:
  "(text = None \<or> (\<exists>t. text = Some t \<and> trim t = [])) \<longrightarrow>
     on_text c text r1 r2 st = (st, []) \<and> on_text_000 c text r d = (d, [])"
  by (auto simp: on_text_def on_text_000_def)

theorem empty_text_is_noop_witness:
  "trim [0x20, 0xA, 0x9] = []
   \<and> on_text 1 (Some [0x20, 0xA, 0x9]) (Inr None) (Inr None) (ensureSession 1 empty_store)
       = (ensureSession 1 empty_store, [])
   \<and> on_text_000 1 (Some [0x20, 0xA, 0x9]) (Inr None) Map.empty = (Map.empty, [])
   \<and> on_text 1 None (Inr None) (Inr None) (ensureSession 1 empty_store)
       = (ensureSession 1 empty_store, [])"
proof -
  have t: "trim [0x20, 0xA, 0x9] = []"
    by (simp add: trim_def isWhiteSpace_def)
  show ?thesis
    using t
      empty_text_is_noop [of "Some [0x20, 0xA, 0x9]" 1 "Inr None" "Inr None"
        "ensureSession 1 empty_store" "Inr None" Map.empty]
      empty_text_is_noop [of None 1 "Inr None" "Inr None"
        "ensureSession 1 empty_store" "Inr None" Map.empty]
    by simp
qed

section \<open>The prompt builder and the completion call\<close>

lemma Math_round_three_quarters:
  "Math_round (of_nat n * 0.75) = of_nat ((3 * n + 2) div 4)"
proof -
  have "\<lfloor>(of_nat n :: rat) * 0.75 + 1 / 2\<rfloor> = (3 * int n + 2) div 4"
    by simp linarith
  moreover have "(3 * int n + 2) div 4 = int ((3 * n + 2) div 4)"
    by (simp add: zdiv_int)
  ultimately show ?thesis
    by (simp add: Math_round_def del: of_nat_add of_nat_mult)
qed

lemma numberToString_nat: "numberToString (of_nat n) = digits n"
  by (simp add: numberToString_def)

lemma Number_digits: "Number (digits n) = of_nat n"
proof -
  have "foldl (\<lambda>acc c. 10 * acc + unat (c - (0x30::16 word))) 0 (digits n) = n"
  proof (induction n rule: digits.induct)
    case (1 n)
    show ?case
    proof (cases "n < 10")
      case True
      then have "n \<in> {0,1,2,3,4,5,6,7,8,9}" by auto
      then show ?thesis
        by (auto simp: digits.simps [of n])
    next
      case False
      have "n mod 10 \<in> {0,1,2,3,4,5,6,7,8,9}" by (simp; presburger)
      then have "unat ((0x30::16 word) + of_nat (n mod 10) - 0x30) = n mod 10"
        by auto
      with False 1 show ?thesis
        by (simp add: digits.simps [of n])
    qed
  qed
  then show ?thesis by (simp add: Number_def)
qed

lemma length_words_nat:
  "min 120 (Math_round (of_nat n * 0.75)) = of_nat (min 120 ((3 * n + 2) div 4))"
proof -
  have "min (120::rat) (of_nat ((3 * n + 2) div 4)) = of_nat (min 120 ((3 * n + 2) div 4))"
    by (simp add: min_def del: of_nat_add of_nat_mult)
  then show ?thesis
    by (simp only: Math_round_three_quarters)
qed

lemma length_words_512: "numberToString (min 120 (Math_round (512 * 0.75))) = u16 ''120''"
proof -
  have "numberToString (min 120 (Math_round (of_nat 512 * 0.75))) = digits (min 120 ((3 * 512 + 2) div 4))"
    by (simp only: length_words_nat numberToString_nat)
  then show ?thesis
    by (simp add: digits.simps u16_def)
qed

lemma length_words_64: "numberToString (min 120 (Math_round (64 * 0.75))) = u16 ''48''"
proof -
  have "numberToString (min 120 (Math_round (of_nat 64 * 0.75))) = digits (min 120 ((3 * 64 + 2) div 4))"
    by (simp only: length_words_nat numberToString_nat)
  then show ?thesis
    by (simp add: digits.simps u16_def)
qed

text \<open>
  Claim C6. The constrained prompt is the trimmed user text, an empty line, the header and
  three directives; the number in the length directive is \<open>min(120, round(max_tokens * 0.75))\<close>
  for every settings value. When \<open>max_tokens\<close> is the natural number \<open>n\<close>, that number is
  \<open>min 120 ((3 * n + 2) div 4)\<close>, it is printed in decimal and reads back as itself. For
  \<open>max_tokens = 512\<close> the directive says 120 and for \<open>max_tokens = 64\<close> it says 48.
\<close>

theorem length_directive:
  "buildConstrainedUserPrompt userText s =
     trim userText @ [0xA, 0xA] @ txt_requirements @ [0xA]
     @ u16 ''- '' @ (if format s = Json then instr_json else instr_bullets) @ [0xA]
     @ u16 ''- '' @ instr_len_pre
         @ numberToString (min 120 (Math_round (max_tokens s * 0.75))) @ instr_len_post @ [0xA]
     @ u16 ''- '' @ (if use_stop s then instr_stop_pre @ STOP_MARKER @ u16 ''.'' else instr_no_stop)
   \<and> (max_tokens s = of_nat n \<longrightarrow>
        min 120 (Math_round (max_tokens s * 0.75)) = of_nat (min 120 ((3 * n + 2) div 4))
        \<and> numberToString (min 120 (Math_round (max_tokens s * 0.75)))
            = digits (min 120 ((3 * n + 2) div 4))
        \<and> Number (digits (min 120 ((3 * n + 2) div 4))) = min 120 (Math_round (max_tokens s * 0.75)))
   \<and> (max_tokens s = 512 \<longrightarrow>
        numberToString (min 120 (Math_round (max_tokens s * 0.75))) = u16 ''120'')
   \<and> (max_tokens s = 64 \<longrightarrow>
        numberToString (min 120 (Math_round (max_tokens s * 0.75))) = u16 ''48'')"
proof -
  have shape: "buildConstrainedUserPrompt userText s =
     trim userText @ [0xA, 0xA] @ txt_requirements @ [0xA]
     @ u16 ''- '' @ (if format s = Json then instr_json else instr_bullets) @ [0xA]
     @ u16 ''- '' @ instr_len_pre
         @ numberToString (min 120 (Math_round (max_tokens s * 0.75))) @ instr_len_post @ [0xA]
     @ u16 ''- '' @ (if use_stop s then instr_stop_pre @ STOP_MARKER @ u16 ''.'' else instr_no_stop)"
    by (simp add: buildConstrainedUserPrompt_def Let_def)
  have nat_case: "min 120 (Math_round (max_tokens s * 0.75)) = of_nat (min 120 ((3 * n + 2) div 4))
        \<and> numberToString (min 120 (Math_round (max_tokens s * 0.75)))
            = digits (min 120 ((3 * n + 2) div 4))
        \<and> Number (digits (min 120 ((3 * n + 2) div 4))) = min 120 (Math_round (max_tokens s * 0.75))"
    if "max_tokens s = of_nat n"
    by (simp only: that length_words_nat numberToString_nat Number_digits)
  have big: "numberToString (min 120 (Math_round (max_tokens s * 0.75))) = u16 ''120''"
    if "max_tokens s = 512"
    by (simp only: that length_words_512)
  have small: "numberToString (min 120 (Math_round (max_tokens s * 0.75))) = u16 ''48''"
    if "max_tokens s = 64"
    by (simp only: that length_words_64)
  from shape nat_case big small show ?thesis
    by blast
qed

theorem length_directive_witness:
  "max_tokens (newDefaultSettings\<lparr>max_tokens := 64\<rparr>) = of_nat 64
   \<and> max_tokens (newDefaultSettings\<lparr>max_tokens := 64\<rparr>) = 64
   \<and> max_tokens (newDefaultSettings\<lparr>max_tokens := 512\<rparr>) = 512
   \<and> numberToString (min 120 (Math_round (max_tokens (newDefaultSettings\<lparr>max_tokens := 64\<rparr>) * 0.75)))
       = digits (min 120 ((3 * 64 + 2) div 4))
   \<and> numberToString (min 120 (Math_round (max_tokens (newDefaultSettings\<lparr>max_tokens := 64\<rparr>) * 0.75)))
       = u16 ''48''
   \<and> numberToString (min 120 (Math_round (max_tokens (newDefaultSettings\<lparr>max_tokens := 512\<rparr>) * 0.75)))
       = u16 ''120''"
proof -
  have a: "max_tokens (newDefaultSettings\<lparr>max_tokens := 64\<rparr>) = of_nat 64"
    and b: "max_tokens (newDefaultSettings\<lparr>max_tokens := 64\<rparr>) = 64"
    and c: "max_tokens (newDefaultSettings\<lparr>max_tokens := 512\<rparr>) = 512"
    by simp_all
  from a b c
    length_directive [where s = "newDefaultSettings\<lparr>max_tokens := 64\<rparr>" and n = 64
      and userText = "[]"]
    length_directive [where s = "newDefaultSettings\<lparr>max_tokens := 512\<rparr>" and n = 512
      and userText = "[]"]
  show ?thesis
    by blast
qed

text \<open>
  Claim C7. The constrained parameters hold the one-element list of the stop marker under
  \<open>stop\<close> exactly when \<open>use_stop\<close> is true, and leave it unset otherwise. The payload
  \<open>callLLM\<close> sends has a property for a parameter exactly when the parameter is set, and
  then with its value: no property of the payload holds \<open>undefined\<close>, and an unset
  parameter has no property at all. The model and the messages are always present.
\<close>

theorem unset_parameters_are_omitted:
  "p_stop (constrainedParams s) = (if use_stop s then Some [STOP_MARKER] else None)
   \<and> map_of (callLLM_payload ms (constrainedParams s)) ''stop''
       = (if use_stop s then Some (Strs [STOP_MARKER]) else None)
   \<and> map_of (callLLM_payload ms UNRESTRICTED_PARAMS) ''stop'' = None
   \<and> fst (callLLM ms p r) = Create (callLLM_payload ms p)
   \<and> map_of (callLLM_payload ms p) ''model'' = Some (Str MODEL)
   \<and> map_of (callLLM_payload ms p) ''messages'' = Some (Messages ms)
   \<and> map_of (callLLM_payload ms p) ''temperature'' = map_option Num (p_temperature p)
   \<and> map_of (callLLM_payload ms p) ''max_tokens'' = map_option Num (p_max_tokens p)
   \<and> map_of (callLLM_payload ms p) ''frequency_penalty'' = map_option Num (p_frequency_penalty p)
   \<and> map_of (callLLM_payload ms p) ''presence_penalty'' = map_option Num (p_presence_penalty p)
   \<and> map_of (callLLM_payload ms p) ''stop'' = map_option Strs (p_stop p)
   \<and> Undefined \<notin> snd ` set (callLLM_payload ms p)
   \<and> distinct (map fst (callLLM_payload ms p))"
proof -
  have keys: "map_of (filter (\<lambda>(k, v). \<not> is_undefined v) kvs) k
      = (case map_of kvs k of None \<Rightarrow> None | Some v \<Rightarrow> if is_undefined v then None else Some v)"
    if "distinct (map fst kvs)" for kvs :: payload and k
    using that by (induction kvs) (auto split: option.splits simp: map_of_eq_None_iff image_iff)
  have undef: "Undefined \<notin> snd ` set (filter (\<lambda>(k, v). \<not> is_undefined v) kvs)" for kvs :: payload
    by (auto simp: image_iff)
  have dist: "distinct (map fst (filter (\<lambda>(k, v). \<not> is_undefined v) kvs))"
    if "distinct (map fst kvs)" for kvs :: payload
    using that by (simp add: distinct_map_filter)
  show ?thesis
    unfolding callLLM_payload_def
    apply (intro conjI)
    apply (simp_all add: keys undef dist constrainedParams_def UNRESTRICTED_PARAMS_def callLLM_def
        callLLM_payload_def num_val_def strs_val_def split: option.splits)
    done
qed

section \<open>The settings buttons\<close>

lemma ensureSession_idem: "ensureSession c (ensureSession c st) = ensureSession c st"
  by (simp add: ensureSession_def Let_def)

lemma dispatch_buttons:
  "\<forall>(d, assign) \<in> set button_meaning.
     on_callback_query c d env st = settings_action assign c env st"
  unfolding button_meaning_def
  by (simp add: on_callback_query_def u16_def isDigit_def Number_def action_len_def
      action_fmt_bullets_def action_fmt_json_def action_temp_02_def action_temp_09_def
      action_freq_0_def action_freq_06_def action_pres_0_def action_pres_06_def
      action_stop_on_def action_stop_off_def)

lemma controlsKeyboard_existing:
  "dialogs st c = Some h \<Longrightarrow> settingsByChat st c = Some s \<Longrightarrow>
   snd (controlsKeyboard c st) = st"
  by (simp add: controlsKeyboard_def getSettings_existing Let_def)

lemma controlsKeyboard_depends_on_settings:
  "dialogs st c = Some h \<Longrightarrow> settingsByChat st c = Some s \<Longrightarrow>
   dialogs st' c = Some h' \<Longrightarrow> settingsByChat st' c = Some s \<Longrightarrow>
   fst (controlsKeyboard c st) = fst (controlsKeyboard c st')"
  by (simp add: controlsKeyboard_def getSettings_existing Let_def)

lemma showControls_existing:
  assumes "dialogs st c = Some h" and "settingsByChat st c = Some s"
  shows "dialogs (fst (showControls ut c env st)) = dialogs st"
    and "settingsByChat (fst (showControls ut c env st)) = settingsByChat st"
    and "set (screens (snd (showControls ut c env st))) = {(controlsText s, fst (controlsKeyboard c st))}"
    and "screen_of (last (snd (showControls ut c env st))) = [(controlsText s, fst (controlsKeyboard c st))]"
    and "snd (showControls ut c env st) \<noteq> []"
  using assms
  by (auto simp: showControls_def getSettings_existing controlsKeyboard_existing screens_def
      Let_def split_beta split: if_splits)

lemma settings_action_existing:
  assumes h: "dialogs st c = Some h" and s: "settingsByChat st c = Some s"
  shows "settingsByChat (fst (settings_action assign c env st)) = (settingsByChat st)(c \<mapsto> assign s)"
    and "dialogs (fst (settings_action assign c env st)) = dialogs st"
    and "hd (snd (settings_action assign c env st)) = AnswerCbQuery (u16 ''OK'')"
    and "set (screens (snd (settings_action assign c env st)))
         = {(controlsText (assign s), fst (controlsKeyboard c (fst (settings_action assign c env st))))}"
    and "screen_of (last (snd (settings_action assign c env st)))
         = [(controlsText (assign s), fst (controlsKeyboard c (fst (settings_action assign c env st))))]"
proof -
  let ?st3 = "st\<lparr>settingsByChat := (settingsByChat st)(c \<mapsto> assign s)\<rparr>"
  have h3: "dialogs ?st3 c = Some h" and s3: "settingsByChat ?st3 c = Some (assign s)"
    using h by simp_all
  have run: "settings_action assign c env st =
    (fst (showControls CallbackQuery c env ?st3),
     AnswerCbQuery (u16 ''OK'') # snd (showControls CallbackQuery c env ?st3))"
    by (simp add: settings_action_def ensureSession_existing [OF h s] getSettings_existing [OF h s]
        Let_def split_beta)
  note sc = showControls_existing [OF h3 s3, of CallbackQuery env]
  have kb: "fst (controlsKeyboard c (fst (showControls CallbackQuery c env ?st3)))
      = fst (controlsKeyboard c ?st3)"
    by (rule controlsKeyboard_depends_on_settings [where h = h and h' = h and s = "assign s"])
      (simp_all add: sc h)
  show "settingsByChat (fst (settings_action assign c env st)) = (settingsByChat st)(c \<mapsto> assign s)"
    by (simp add: run sc)
  show "dialogs (fst (settings_action assign c env st)) = dialogs st"
    by (simp add: run sc)
  show "hd (snd (settings_action assign c env st)) = AnswerCbQuery (u16 ''OK'')"
    by (simp add: run)
  show "set (screens (snd (settings_action assign c env st)))
         = {(controlsText (assign s), fst (controlsKeyboard c (fst (settings_action assign c env st))))}"
    using sc(3) by (simp add: run kb screens_def)
  show "screen_of (last (snd (settings_action assign c env st)))
         = [(controlsText (assign s), fst (controlsKeyboard c (fst (settings_action assign c env st))))]"
    using sc(4) sc(5) by (simp add: run kb)
qed

lemma settings_action_ensures:
  "settings_action assign c env st = settings_action assign c env (ensureSession c st)"
  by (simp add: settings_action_def ensureSession_idem)

lemma showControls_callback_existing:
  assumes "dialogs st c = Some h" and "settingsByChat st c = Some s"
  shows "snd (showControls CallbackQuery c env st) =
    (let text = controlsText s; keyboard = fst (controlsKeyboard c st);
         existingId = settingsMsgIdByChat st c
     in if edit_ok env then [EditMessageText text keyboard]
        else if truthy existingId \<and> api_edit_ok env
        then [EditMessageText text keyboard,
              ApiEditMessageText c (the existingId) text keyboard]
        else if truthy existingId
        then [EditMessageText text keyboard,
              ApiEditMessageText c (the existingId) text keyboard,
              Reply text (Some keyboard)]
        else [EditMessageText text keyboard, Reply text (Some keyboard)])"
  using assms
  by (simp add: showControls_def getSettings_existing controlsKeyboard_existing
      Let_def split_beta)

lemma unchanged_field:
  "s\<lparr>max_tokens := v\<rparr> = s \<longleftrightarrow> max_tokens s = v"
  "s\<lparr>format := f\<rparr> = s \<longleftrightarrow> format s = f"
  "s\<lparr>temperature := v\<rparr> = s \<longleftrightarrow> temperature s = v"
  "s\<lparr>frequency_penalty := v\<rparr> = s \<longleftrightarrow> frequency_penalty s = v"
  "s\<lparr>presence_penalty := v\<rparr> = s \<longleftrightarrow> presence_penalty s = v"
  "s\<lparr>use_stop := b\<rparr> = s \<longleftrightarrow> use_stop s = b"
  by (cases s; auto)+

lemma marks_follow_settings:
  assumes "dialogs st c = Some h" and "settingsByChat st c = Some s"
  shows "\<forall>(d, l, assign) \<in> set settings_buttons.
           label_of (fst (controlsKeyboard c st)) d = Some (if assign s = s then GREEN @ l else l)"
  unfolding settings_buttons_def
  by (simp add: controlsKeyboard_def getSettings_existing [OF assms] label_of_def labelRow_def
      unchanged_field u16_def)

lemma buttons_tables: "map (\<lambda>(d, l, assign). (d, assign)) settings_buttons = button_meaning"
  by (simp add: settings_buttons_def button_meaning_def)

lemma prints:
  "numberToString 64 = u16 ''64''" "numberToString 128 = u16 ''128''"
  "numberToString 256 = u16 ''256''" "numberToString 512 = u16 ''512''"
  "numberToString 0.2 = u16 ''0.2''" "numberToString 0.7 = u16 ''0.7''"
  "numberToString 0.9 = u16 ''0.9''" "numberToString 0 = u16 ''0''"
  "numberToString 0.6 = u16 ''0.6''"
  by (simp_all add: numberToString_def digits.simps u16_def Let_def)

lemma settings_action_run:
  assumes h: "dialogs st c = Some h" and s: "settingsByChat st c = Some s"
  shows "settings_action assign c env st =
    (fst (showControls CallbackQuery c env
            (st\<lparr>settingsByChat := (settingsByChat st)(c \<mapsto> assign s)\<rparr>)),
     AnswerCbQuery (u16 ''OK'') #
     snd (showControls CallbackQuery c env
            (st\<lparr>settingsByChat := (settingsByChat st)(c \<mapsto> assign s)\<rparr>)))"
  by (simp add: settings_action_def ensureSession_existing [OF h s] getSettings_existing [OF h s]
      Let_def split_beta)

lemma assignments_idempotent:
  "\<forall>(d, l, assign) \<in> set settings_buttons. assign (assign s) = assign s"
  by (simp add: settings_buttons_def)

lemma controlsText_explicit:
  "controlsText s =
     txt_controls_head
     @ u16 ''max_tokens: '' @ numberToString (max_tokens s)
     @ u16 '' | format: '' @ (if format s = Json then u16 ''JSON'' else txt_list)
     @ u16 '' | temp: '' @ numberToString (temperature s)
     @ u16 '' | freq: '' @ numberToString (frequency_penalty s)
     @ u16 '' | pres: '' @ numberToString (presence_penalty s)
     @ u16 '' | stop: '' @ (if use_stop s then u16 ''ON ('' @ STOP_MARKER @ u16 '')'' else u16 ''OFF'')
     @ txt_controls_tail"
  by (simp add: controlsText_def prettySettings_def Let_def)

lemma settings_press:
  assumes b: "(d, l, assign) \<in> set settings_buttons"
    and h: "dialogs st c = Some h" and s: "settingsByChat st c = Some s"
  shows "settingsByChat (fst (on_callback_query c d env st)) = (settingsByChat st)(c \<mapsto> assign s)"
    and "dialogs (fst (on_callback_query c d env st)) = dialogs st"
    and "snd (on_callback_query c d env st) =
           AnswerCbQuery (u16 ''OK'') #
           (let text = controlsText (assign s);
                keyboard = fst (controlsKeyboard c (fst (on_callback_query c d env st)));
                existingId = settingsMsgIdByChat st c
            in if edit_ok env then [EditMessageText text keyboard]
               else if truthy existingId \<and> api_edit_ok env
               then [EditMessageText text keyboard,
                     ApiEditMessageText c (the existingId) text keyboard]
               else if truthy existingId
               then [EditMessageText text keyboard,
                     ApiEditMessageText c (the existingId) text keyboard,
                     Reply text (Some keyboard)]
               else [EditMessageText text keyboard, Reply text (Some keyboard)])"
    and "\<forall>(d', l', assign') \<in> set settings_buttons.
           label_of (fst (controlsKeyboard c (fst (on_callback_query c d env st)))) d'
           = Some (if assign' (assign s) = assign s then GREEN @ l' else l')"
    and "label_of (fst (controlsKeyboard c (fst (on_callback_query c d env st)))) d
           = Some (GREEN @ l)"
proof -
  let ?st3 = "st\<lparr>settingsByChat := (settingsByChat st)(c \<mapsto> assign s)\<rparr>"
  from b have "(d, assign) \<in> set (map (\<lambda>(d, l, assign). (d, assign)) settings_buttons)"
    by force
  then have "(d, assign) \<in> set button_meaning"
    by (simp only: buttons_tables)
  with dispatch_buttons [of c env st]
  have disp: "on_callback_query c d env st = settings_action assign c env st"
    by blast
  note run = disp [unfolded settings_action_run [OF h s]]
  have h3: "dialogs ?st3 c = Some h" and s3: "settingsByChat ?st3 c = Some (assign s)"
    using h by simp_all
  note sc = showControls_existing [OF h3 s3, of CallbackQuery env]
  have kb: "fst (controlsKeyboard c (fst (showControls CallbackQuery c env ?st3)))
      = fst (controlsKeyboard c ?st3)"
    by (rule controlsKeyboard_depends_on_settings [where h = h and h' = h and s = "assign s"])
      (simp_all add: sc h)
  show "settingsByChat (fst (on_callback_query c d env st)) = (settingsByChat st)(c \<mapsto> assign s)"
    by (simp add: run sc)
  show "dialogs (fst (on_callback_query c d env st)) = dialogs st"
    by (simp add: run sc)
  show "snd (on_callback_query c d env st) =
           AnswerCbQuery (u16 ''OK'') #
           (let text = controlsText (assign s);
                keyboard = fst (controlsKeyboard c (fst (on_callback_query c d env st)));
                existingId = settingsMsgIdByChat st c
            in if edit_ok env then [EditMessageText text keyboard]
               else if truthy existingId \<and> api_edit_ok env
               then [EditMessageText text keyboard,
                     ApiEditMessageText c (the existingId) text keyboard]
               else if truthy existingId
               then [EditMessageText text keyboard,
                     ApiEditMessageText c (the existingId) text keyboard,
                     Reply text (Some keyboard)]
               else [EditMessageText text keyboard, Reply text (Some keyboard)])"
    by (simp add: run kb showControls_callback_existing [OF h3 s3] Let_def)
  have marks: "\<forall>(d', l', assign') \<in> set settings_buttons.
           label_of (fst (controlsKeyboard c ?st3)) d'
           = Some (if assign' (assign s) = assign s then GREEN @ l' else l')"
    by (rule marks_follow_settings [OF h3 s3])
  then show all: "\<forall>(d', l', assign') \<in> set settings_buttons.
           label_of (fst (controlsKeyboard c (fst (on_callback_query c d env st)))) d'
           = Some (if assign' (assign s) = assign s then GREEN @ l' else l')"
    by (simp add: run kb)
  from b assignments_idempotent [of "assign s"] have "assign (assign (assign s)) = assign (assign s)"
    by blast
  from b assignments_idempotent [of s] have idem: "assign (assign s) = assign s"
    by blast
  from all b have "label_of (fst (controlsKeyboard c (fst (on_callback_query c d env st)))) d
           = Some (if assign (assign s) = assign s then GREEN @ l else l)"
    by blast
  with idem show "label_of (fst (controlsKeyboard c (fst (on_callback_query c d env st)))) d
           = Some (GREEN @ l)"
    by simp
qed

lemma keyboard_values_kept:
  "\<forall>(d, l, assign) \<in> set settings_buttons. keyboard_values s \<longrightarrow> keyboard_values (assign s)"
  by (simp add: settings_buttons_def keyboard_values_def)

text \<open>
  Claim C8. A press of a settings button of the keyboard, in a chat that has its history
  and settings, assigns the value of the button to its one field of the settings of that
  chat: the settings of the chat become the old ones with that field updated, the settings
  of the other chats and every history stay as they were. The handler acknowledges the
  press and then renders the Settings screen: it edits the pressed message; if that fails
  and a settings message is remembered it edits that one; if no edit succeeded it sends a
  new message. Whatever the transport answers, exactly one screen ends up displayed, and
  every attempt carries the same text and keyboard. On that keyboard the pressed button
  carries the green mark, and each settings button is marked exactly when pressing it
  would leave the updated settings as they are. The text is the summary of the updated
  settings, field by field; for settings with keyboard values the numbers print as
  JavaScript prints them. In a chat without history or settings the handler behaves as on
  the store \<open>ensureSession\<close> gives. The identifiers of \<open>settings_buttons\<close> are those of
  the settings buttons of the keyboard.
\<close>

theorem settings_button_sets_one_field:
  "(\<forall>(d, l, assign) \<in> set settings_buttons.
      dialogs st c = Some h \<and> settingsByChat st c = Some s \<longrightarrow>
        (let res = on_callback_query c d env st;
             text = controlsText (assign s);
             keyboard = fst (controlsKeyboard c (fst res));
             existingId = settingsMsgIdByChat st c
         in settingsByChat (fst res) = (settingsByChat st)(c \<mapsto> assign s)
          \<and> dialogs (fst res) = dialogs st
          \<and> snd res =
               AnswerCbQuery (u16 ''OK'') #
               (if edit_ok env then [EditMessageText text keyboard]
                else if truthy existingId \<and> api_edit_ok env
                then [EditMessageText text keyboard,
                      ApiEditMessageText c (the existingId) text keyboard]
                else if truthy existingId
                then [EditMessageText text keyboard,
                      ApiEditMessageText c (the existingId) text keyboard,
                      Reply text (Some keyboard)]
                else [EditMessageText text keyboard, Reply text (Some keyboard)])
          \<and> set (screens (snd res)) = {(text, keyboard)}
          \<and> shown_screens env (snd res) = [(text, keyboard)]
          \<and> label_of keyboard d = Some (GREEN @ l)
          \<and> (\<forall>(d', l', assign') \<in> set settings_buttons.
                label_of keyboard d'
                = Some (if assign' (assign s) = assign s then GREEN @ l' else l'))
          \<and> (keyboard_values s \<longrightarrow>
                keyboard_values (assign s)
                \<and> text =
                   txt_controls_head
                   @ u16 ''max_tokens: '' @ numberToString (max_tokens (assign s))
                   @ u16 '' | format: ''
                   @ (if format (assign s) = Json then u16 ''JSON'' else txt_list)
                   @ u16 '' | temp: '' @ numberToString (temperature (assign s))
                   @ u16 '' | freq: '' @ numberToString (frequency_penalty (assign s))
                   @ u16 '' | pres: '' @ numberToString (presence_penalty (assign s))
                   @ u16 '' | stop: ''
                   @ (if use_stop (assign s) then u16 ''ON ('' @ STOP_MARKER @ u16 '')''
                      else u16 ''OFF'')
                   @ txt_controls_tail)))
   \<and> map (\<lambda>(d, l, assign). (d, assign)) settings_buttons = button_meaning
   \<and> (\<forall>(d, assign) \<in> set button_meaning.
        on_callback_query c d env st = on_callback_query c d env (ensureSession c st))
   \<and> [d \<leftarrow> map snd (concat (fst (controlsKeyboard c st))).
         d \<noteq> u16 ''noop'' \<and> d \<noteq> u16 ''back_to_prompt''] = map fst button_meaning
   \<and> numberToString 64 = u16 ''64'' \<and> numberToString 128 = u16 ''128''
   \<and> numberToString 256 = u16 ''256'' \<and> numberToString 512 = u16 ''512''
   \<and> numberToString 0.2 = u16 ''0.2'' \<and> numberToString 0.7 = u16 ''0.7''
   \<and> numberToString 0.9 = u16 ''0.9'' \<and> numberToString 0 = u16 ''0''
   \<and> numberToString 0.6 = u16 ''0.6''"
proof -
  have one: "(let res = on_callback_query c d env st;
             text = controlsText (assign s);
             keyboard = fst (controlsKeyboard c (fst res));
             existingId = settingsMsgIdByChat st c
         in settingsByChat (fst res) = (settingsByChat st)(c \<mapsto> assign s)
          \<and> dialogs (fst res) = dialogs st
          \<and> snd res =
               AnswerCbQuery (u16 ''OK'') #
               (if edit_ok env then [EditMessageText text keyboard]
                else if truthy existingId \<and> api_edit_ok env
                then [EditMessageText text keyboard,
                      ApiEditMessageText c (the existingId) text keyboard]
                else if truthy existingId
                then [EditMessageText text keyboard,
                      ApiEditMessageText c (the existingId) text keyboard,
                      Reply text (Some keyboard)]
                else [EditMessageText text keyboard, Reply text (Some keyboard)])
          \<and> set (screens (snd res)) = {(text, keyboard)}
          \<and> shown_screens env (snd res) = [(text, keyboard)]
          \<and> label_of keyboard d = Some (GREEN @ l)
          \<and> (\<forall>(d', l', assign') \<in> set settings_buttons.
                label_of keyboard d'
                = Some (if assign' (assign s) = assign s then GREEN @ l' else l'))
          \<and> (keyboard_values s \<longrightarrow>
                keyboard_values (assign s)
                \<and> text =
                   txt_controls_head
                   @ u16 ''max_tokens: '' @ numberToString (max_tokens (assign s))
                   @ u16 '' | format: ''
                   @ (if format (assign s) = Json then u16 ''JSON'' else txt_list)
                   @ u16 '' | temp: '' @ numberToString (temperature (assign s))
                   @ u16 '' | freq: '' @ numberToString (frequency_penalty (assign s))
                   @ u16 '' | pres: '' @ numberToString (presence_penalty (assign s))
                   @ u16 '' | stop: ''
                   @ (if use_stop (assign s) then u16 ''ON ('' @ STOP_MARKER @ u16 '')''
                      else u16 ''OFF'')
                   @ txt_controls_tail))"
    if b: "(d, l, assign) \<in> set settings_buttons"
      and h: "dialogs st c = Some h" and s: "settingsByChat st c = Some s" for d l assign
  proof -
    note p = settings_press [OF b h s, of env]
    let ?effs = "snd (on_callback_query c d env st)"
    let ?text = "controlsText (assign s)"
    let ?kb = "fst (controlsKeyboard c (fst (on_callback_query c d env st)))"
    have att: "set (screens ?effs) = {(?text, ?kb)}"
      by (subst p(3)) (simp add: screens_def Let_def)
    have shown: "shown_screens env ?effs = [(?text, ?kb)]"
      by (subst p(3)) (simp add: shown_screens_def Let_def)
    from b keyboard_values_kept [of s]
    have kept: "keyboard_values s \<longrightarrow> keyboard_values (assign s)"
      by blast
    show ?thesis
      unfolding Let_def
      using p(1) p(2) p(3) [unfolded Let_def] att shown p(5) p(4) kept
        controlsText_explicit [of "assign s"]
      by blast
  qed
  have two: "on_callback_query c d env st = on_callback_query c d env (ensureSession c st)"
    if b: "(d, assign) \<in> set button_meaning" for d assign
  proof -
    from b dispatch_buttons [of c env st] dispatch_buttons [of c env "ensureSession c st"]
    have "on_callback_query c d env st = settings_action assign c env st"
      and "on_callback_query c d env (ensureSession c st)
           = settings_action assign c env (ensureSession c st)"
      by blast+
    then show ?thesis
      using settings_action_ensures [of assign c env st] by simp
  qed
  have three: "[d \<leftarrow> map snd (concat (fst (controlsKeyboard c st))).
         d \<noteq> u16 ''noop'' \<and> d \<noteq> u16 ''back_to_prompt''] = map fst button_meaning"
    by (simp add: controlsKeyboard_def button_meaning_def labelRow_def split_beta Let_def u16_def)
  from one two three buttons_tables prints show ?thesis
    by blast
qed

text \<open>
  The witness: the \<open>256\<close> button in a fresh conversation, with a transport that rejects
  the edit of the pressed message.
\<close>

theorem settings_button_sets_one_field_witness:
  "(u16 ''len_256'', u16 ''256'', \<lambda>s. s\<lparr>max_tokens := 256\<rparr>) \<in> set settings_buttons
   \<and> (u16 ''len_128'', u16 ''128'', \<lambda>s. s\<lparr>max_tokens := 128\<rparr>) \<in> set settings_buttons
   \<and> dialogs (resetSession 1 empty_store) 1 = Some [\<lparr>role = System, content = DEFAULT_SYSTEM\<rparr>]
   \<and> settingsByChat (resetSession 1 empty_store) 1 = Some newDefaultSettings
   \<and> keyboard_values newDefaultSettings
   \<and> settingsByChat (fst (on_callback_query 1 (u16 ''len_256'')
          \<lparr>edit_ok = False, callback_message_id = Some 5, api_edit_ok = True,
           sent_message_id = Some 9\<rparr> (resetSession 1 empty_store))) 1
       = Some \<lparr>max_tokens = 256, format = Bullets, temperature = 7 / 10, frequency_penalty = 0,
               presence_penalty = 0, use_stop = True\<rparr>
   \<and> dialogs (fst (on_callback_query 1 (u16 ''len_256'')
          \<lparr>edit_ok = False, callback_message_id = Some 5, api_edit_ok = True,
           sent_message_id = Some 9\<rparr> (resetSession 1 empty_store))) 1
       = Some [\<lparr>role = System, content = DEFAULT_SYSTEM\<rparr>]
   \<and> map fst (shown_screens
          \<lparr>edit_ok = False, callback_message_id = Some 5, api_edit_ok = True,
           sent_message_id = Some 9\<rparr>
          (snd (on_callback_query 1 (u16 ''len_256'')
          \<lparr>edit_ok = False, callback_message_id = Some 5, api_edit_ok = True,
           sent_message_id = Some 9\<rparr> (resetSession 1 empty_store))))
       = [txt_controls_head
          @ u16 ''max_tokens: 256 | format: '' @ txt_list
          @ u16 '' | temp: 0.7 | freq: 0 | pres: 0 | stop: ON (<END>)''
          @ txt_controls_tail]
   \<and> label_of (fst (controlsKeyboard 1 (fst (on_callback_query 1 (u16 ''len_256'')
          \<lparr>edit_ok = False, callback_message_id = Some 5, api_edit_ok = True,
           sent_message_id = Some 9\<rparr> (resetSession 1 empty_store))))) (u16 ''len_256'')
       = Some (GREEN @ u16 ''256'')
   \<and> label_of (fst (controlsKeyboard 1 (fst (on_callback_query 1 (u16 ''len_256'')
          \<lparr>edit_ok = False, callback_message_id = Some 5, api_edit_ok = True,
           sent_message_id = Some 9\<rparr> (resetSession 1 empty_store))))) (u16 ''len_128'')
       = Some (u16 ''128'')"
proof -
  let ?env = "\<lparr>edit_ok = False, callback_message_id = Some 5, api_edit_ok = True,
           sent_message_id = Some 9\<rparr>"
  let ?st = "resetSession 1 empty_store"
  let ?res = "on_callback_query 1 (u16 ''len_256'') ?env ?st"
  let ?s' = "newDefaultSettings\<lparr>max_tokens := 256\<rparr>"
  have b: "(u16 ''len_256'', u16 ''256'', \<lambda>s. s\<lparr>max_tokens := 256\<rparr>) \<in> set settings_buttons"
    and b': "(u16 ''len_128'', u16 ''128'', \<lambda>s. s\<lparr>max_tokens := 128\<rparr>) \<in> set settings_buttons"
    by (simp_all add: settings_buttons_def)
  have h: "dialogs ?st 1 = Some [\<lparr>role = System, content = DEFAULT_SYSTEM\<rparr>]"
    and s: "settingsByChat ?st 1 = Some newDefaultSettings"
    by (rule reset_has_session)+
  have kv: "keyboard_values newDefaultSettings"
    by (simp add: keyboard_values_def newDefaultSettings_def)
  note all = settings_button_sets_one_field [where st = ?st and c = 1 and env = ?env
      and h = "[\<lparr>role = System, content = DEFAULT_SYSTEM\<rparr>]" and s = newDefaultSettings]
  note press = all [THEN conjunct1, THEN bspec, OF b, unfolded prod.case Let_def, THEN mp,
      OF conjI [OF h s]]
  note r1 = press [THEN conjunct1]
  note r2 = press [THEN conjunct2, THEN conjunct1]
  note rest = press [THEN conjunct2, THEN conjunct2, THEN conjunct2, THEN conjunct2]
  note shown = rest [THEN conjunct1]
  note l256 = rest [THEN conjunct2, THEN conjunct1]
  note marks = rest [THEN conjunct2, THEN conjunct2, THEN conjunct1]
  note shown_text = rest [THEN conjunct2, THEN conjunct2, THEN conjunct2, THEN mp, OF kv,
      THEN conjunct2]
  note l128 = marks [THEN bspec, OF b', unfolded prod.case]
  have s': "settingsByChat (fst ?res) 1 = Some ?s'"
    by (simp add: r1)
  have h': "dialogs (fst ?res) 1 = Some [\<lparr>role = System, content = DEFAULT_SYSTEM\<rparr>]"
    by (simp add: r2 h)
  have diff: "?s'\<lparr>max_tokens := 128\<rparr> \<noteq> ?s'"
    by (simp add: newDefaultSettings_def)
  have l128': "label_of (fst (controlsKeyboard 1 (fst ?res))) (u16 ''len_128'') = Some (u16 ''128'')"
    using l128 diff by simp
  have pr: "numberToString 256 = u16 ''256''" "numberToString (7 / 10) = u16 ''0.7''"
    "numberToString 0 = u16 ''0''"
    using prints by simp_all
  have glue: "u16 ''max_tokens: 256 | format: '' @ txt_list
          @ u16 '' | temp: 0.7 | freq: 0 | pres: 0 | stop: ON (<END>)''
      = u16 ''max_tokens: '' @ u16 ''256'' @ u16 '' | format: '' @ txt_list
        @ u16 '' | temp: '' @ u16 ''0.7'' @ u16 '' | freq: '' @ u16 ''0''
        @ u16 '' | pres: '' @ u16 ''0'' @ u16 '' | stop: '' @ u16 ''ON ('' @ u16 ''<END>'' @ u16 '')''"
    by (simp add: u16_def)
  have whole: "controlsText ?s' =
      txt_controls_head
          @ u16 ''max_tokens: 256 | format: '' @ txt_list
          @ u16 '' | temp: 0.7 | freq: 0 | pres: 0 | stop: ON (<END>)''
          @ txt_controls_tail"
    unfolding shown_text
    by (simp add: newDefaultSettings_def pr STOP_MARKER_def glue)
  have shown': "map fst (shown_screens ?env (snd ?res)) =
      [txt_controls_head
          @ u16 ''max_tokens: 256 | format: '' @ txt_list
          @ u16 '' | temp: 0.7 | freq: 0 | pres: 0 | stop: ON (<END>)''
          @ txt_controls_tail]"
    unfolding shown by (simp add: whole)
  have s'': "settingsByChat (fst ?res) 1
       = Some \<lparr>max_tokens = 256, format = Bullets, temperature = 7 / 10, frequency_penalty = 0,
               presence_penalty = 0, use_stop = True\<rparr>"
    unfolding s' by (simp add: newDefaultSettings_def)
  from b b' h s kv s'' h' shown' l256 l128' show ?thesis
    by (intro conjI)
qed

text \<open>
  Claim C9 fails on the code. The pattern \<open>/len_(\d+)/\<close> accepts any run of digits, and the
  handler stores its value unchecked: a button press with the callback identifier
  \<open>len_999\<close> in a fresh conversation leaves \<open>max_tokens = 999\<close>, which is not one of
  64, 128, 256 and 512.
\<close>

theorem len_pattern_takes_any_number:
  "match_len (u16 ''len_999'') = Some (u16 ''999'')
   \<and> settingsByChat (fst (on_callback_query c (u16 ''len_999'') env (resetSession c st))) c
       = Some (newDefaultSettings\<lparr>max_tokens := 999\<rparr>)
   \<and> max_tokens (newDefaultSettings\<lparr>max_tokens := 999\<rparr>) \<notin> {64, 128, 256, 512}"
proof -
  have m: "match_len (u16 ''len_999'') = Some (u16 ''999'')"
    by (simp add: u16_def isDigit_def)
  have n: "Number (u16 ''999'') = 999"
    by (simp add: Number_def u16_def)
  have d: "u16 ''len_999'' \<noteq> u16 ''noop''" "u16 ''len_999'' \<noteq> u16 ''do_start''"
    "u16 ''len_999'' \<noteq> u16 ''new_question''" "u16 ''len_999'' \<noteq> u16 ''open_settings''"
    "u16 ''len_999'' \<noteq> u16 ''back_to_prompt''"
    by (simp_all add: u16_def)
  have run: "on_callback_query c (u16 ''len_999'') env (resetSession c st)
      = settings_action (\<lambda>s. s\<lparr>max_tokens := 999\<rparr>) c env (resetSession c st)"
    by (simp add: on_callback_query_def d m n action_len_def)
  show ?thesis
    unfolding run
    by (simp add: m settings_action_existing(1) [OF reset_has_session])
qed

end
